theory Spec2Isabelle
  imports Main "HOL-Library.Word"
begin

section \<open>Addresses, errors and byte buffers\<close>

text \<open>
  The program identifies sockets by \<^verbatim>\<open>netip.AddrPort\<close> values: an IP address and a
  16-bit port. The zero \<^verbatim>\<open>netip.Addr\<close> is the only invalid address, and an
  \<^verbatim>\<open>AddrPort\<close> is valid exactly when its address is. Go compares two
  \<^verbatim>\<open>AddrPort\<close> values field by field, which is the equality of the datatype.
\<close>

datatype Addr = ZeroAddr | IPv4 "32 word" | IPv6 "128 word" string

datatype AddrPort = AddrPort (ip: Addr) (port: "16 word")

definition IsValid :: "AddrPort \<Rightarrow> bool" where
  "IsValid p = (ip p \<noteq> ZeroAddr)"

text \<open>The composite literal \<^verbatim>\<open>netip.AddrPort{}\<close>.\<close>

definition zeroAddrPort :: AddrPort where
  "zeroAddrPort = AddrPort ZeroAddr 0"

text \<open>
  The error values the program returns (\<^verbatim>\<open>syscall.EADDRNOTAVAIL\<close>,
  \<^verbatim>\<open>syscall.EBADF\<close>, \<^verbatim>\<open>syscall.EINVAL\<close>, \<^verbatim>\<open>syscall.EISCONN\<close>,
  \<^verbatim>\<open>syscall.ENOTCONN\<close>, \<^verbatim>\<open>net.ErrClosed\<close>, \<^verbatim>\<open>os.ErrDeadlineExceeded\<close>),
  together with \<^verbatim>\<open>syscall.EADDRINUSE\<close>, the errno a kernel reports for an address
  that is already in use. A Go \<^verbatim>\<open>error\<close> is \<open>error option\<close>: \<open>None\<close> is
  \<^verbatim>\<open>nil\<close>.
\<close>

datatype error =
    EADDRINUSE
  | EADDRNOTAVAIL
  | EBADF
  | EINVAL
  | EISCONN
  | ENOTCONN
  | ErrClosed
  | ErrDeadlineExceeded

type_synonym byte = "8 word"

text \<open>
  Go's builtin \<^verbatim>\<open>copy(dst, src)\<close> on two slices that do not overlap: it overwrites
  the first \<open>min (len dst) (len src)\<close> elements of \<open>dst\<close> and returns that number.
  The function returns the new contents of \<open>dst\<close> and the count.
\<close>

definition go_copy :: "'a list \<Rightarrow> 'a list \<Rightarrow> 'a list \<times> int" where
  "go_copy dst src =
     (let k = min (length dst) (length src) in (take k src @ drop k dst, int k))"

section \<open>The network actor (network.go)\<close>

text \<open>
  Every request carries a channel \<^verbatim>\<open>ack\<close> that the actor closes once to acknowledge
  the request. The field is modelled as a flag: \<open>True\<close> when the channel is closed.
  The actor writes its results into the request itself before closing the channel; the
  model returns the request as the actor left it at that moment.
\<close>

record networkNewConnUDP =
  nc_ack :: bool
  nc_err :: "error option"
  nc_localAddr :: AddrPort

record networkDeleteConnUDP =
  dc_ack :: bool
  dc_err :: "error option"
  dc_localAddr :: AddrPort

record networkWriteUDP =
  w_ack :: bool
  w_destAddr :: AddrPort
  w_err :: "error option"
  w_payload :: "byte list"
  w_sourceAddr :: AddrPort

record networkReadUDP =
  r_ack :: bool
  r_buffer :: "byte list"
  r_count :: int
  r_err :: "error option"
  r_localAddr :: AddrPort
  r_senderAddr :: AddrPort

record networkConnStateUDP =
  blockedReads :: "networkReadUDP list"
  blockedWrites :: "networkWriteUDP list"

text \<open>
  The \<^verbatim>\<open>Network\<close> struct. \<open>net_closed\<close> says whether the channel \<^verbatim>\<open>closed\<close> has
  been closed, \<open>net_once\<close> whether the \<^verbatim>\<open>sync.Once\<close> has run, and \<open>udp\<close> is the map
  from bound address to its state. The map stores a pointer to a state allocated by
  \<open>onNewConnUDP\<close> and held nowhere else, so an update through the pointer is an update
  of the map entry. The four request channels are unbuffered and hold no state.
  \<open>loop_running\<close> is not a field of the struct: it records whether the goroutine that
  \<^verbatim>\<open>NewNetwork\<close> starts is still inside \<^verbatim>\<open>loop\<close>.
\<close>

record Network =
  net_closed :: bool
  net_once :: bool
  udp :: "AddrPort \<rightharpoonup> networkConnStateUDP"
  loop_running :: bool

definition NewNetwork :: Network where
  "NewNetwork = \<lparr>net_closed = False, net_once = False, udp = Map.empty, loop_running = True\<rparr>"

text \<open>\<^verbatim>\<open>Network.Close\<close>: the body of \<^verbatim>\<open>once.Do\<close> runs at the first call only; the
  call always returns \<^verbatim>\<open>nil\<close>.\<close>

definition Network_Close :: "Network \<Rightarrow> Network \<times> error option" where
  "Network_Close n =
     (if net_once n then (n, None)
      else (n\<lparr>net_closed := True, net_once := True\<rparr>, None))"

text \<open>The acknowledgements the actor produces, in the order it closes the channels.\<close>

datatype ack =
    AckNewConnUDP networkNewConnUDP
  | AckReadUDP networkReadUDP
  | AckWriteUDP networkWriteUDP
  | AckDeleteConnUDP networkDeleteConnUDP

text \<open>
  \<^verbatim>\<open>onNewConnUDP\<close> and \<^verbatim>\<open>onDeleteConnUDP\<close> close \<^verbatim>\<open>req.ack\<close> in a
  \<^verbatim>\<open>defer\<close>, so they acknowledge on every path: they return the network and the
  request as acknowledged.
\<close>

definition onNewConnUDP :: "Network \<Rightarrow> networkNewConnUDP \<Rightarrow> Network \<times> networkNewConnUDP" where
  "onNewConnUDP n req =
     (if udp n (nc_localAddr req) \<noteq> None
      then (n, req\<lparr>nc_err := Some EADDRNOTAVAIL, nc_ack := True\<rparr>)
      else (n\<lparr>udp := (udp n)(nc_localAddr req \<mapsto>
                  \<lparr>blockedReads = [], blockedWrites = []\<rparr>)\<rparr>,
            req\<lparr>nc_ack := True\<rparr>))"

definition finishReadWrite :: "networkReadUDP \<Rightarrow> networkWriteUDP \<Rightarrow> ack list" where
  "finishReadWrite read write =
     (let (buf, cnt) = go_copy (r_buffer read) (w_payload write);
          read1 = read\<lparr>r_buffer := buf, r_count := cnt\<rparr>;
          write1 = write\<lparr>w_ack := True\<rparr>;
          read2 = read1\<lparr>r_senderAddr := w_sourceAddr write\<rparr>;
          read3 = read2\<lparr>r_ack := True\<rparr>
      in [AckWriteUDP write1, AckReadUDP read3])"

definition onReadUDP :: "Network \<Rightarrow> networkReadUDP \<Rightarrow> Network \<times> ack list" where
  "onReadUDP n read =
     (case udp n (r_localAddr read) of
        None \<Rightarrow> (n, [AckReadUDP (read\<lparr>r_err := Some EBADF, r_ack := True\<rparr>)])
      | Some source \<Rightarrow>
          if length (blockedWrites source) \<le> 0
          then (n\<lparr>udp := (udp n)(r_localAddr read \<mapsto>
                      source\<lparr>blockedReads := blockedReads source @ [read]\<rparr>)\<rparr>, [])
          else (n\<lparr>udp := (udp n)(r_localAddr read \<mapsto>
                      source\<lparr>blockedWrites := tl (blockedWrites source)\<rparr>)\<rparr>,
                finishReadWrite read (hd (blockedWrites source))))"

definition onWriteUDP :: "Network \<Rightarrow> networkWriteUDP \<Rightarrow> Network \<times> ack list" where
  "onWriteUDP n write =
     (case udp n (w_destAddr write) of
        None \<Rightarrow> (n, [AckWriteUDP (write\<lparr>w_ack := True\<rparr>)])
      | Some dest \<Rightarrow>
          if length (blockedReads dest) \<le> 0
          then (n\<lparr>udp := (udp n)(w_destAddr write \<mapsto>
                      dest\<lparr>blockedWrites := blockedWrites dest @ [write]\<rparr>)\<rparr>, [])
          else (n\<lparr>udp := (udp n)(w_destAddr write \<mapsto>
                      dest\<lparr>blockedReads := tl (blockedReads dest)\<rparr>)\<rparr>,
                finishReadWrite (hd (blockedReads dest)) write))"

definition onDeleteConnUDP :: "Network \<Rightarrow> networkDeleteConnUDP \<Rightarrow> Network \<times> networkDeleteConnUDP" where
  "onDeleteConnUDP n req =
     (if udp n (dc_localAddr req) = None
      then (n, req\<lparr>dc_err := Some EBADF, dc_ack := True\<rparr>)
      else (n\<lparr>udp := (udp n)(dc_localAddr req := None)\<rparr>, req\<lparr>dc_ack := True\<rparr>))"

text \<open>
  One iteration of \<^verbatim>\<open>loop\<close> that receives a request from one of the four channels.
\<close>

datatype request =
    NewConnUDP networkNewConnUDP
  | ReadUDP networkReadUDP
  | WriteUDP networkWriteUDP
  | DeleteConnUDP networkDeleteConnUDP

fun dispatch :: "Network \<Rightarrow> request \<Rightarrow> Network \<times> ack list" where
  "dispatch n (NewConnUDP req) =
     (let (n1, req1) = onNewConnUDP n req in (n1, [AckNewConnUDP req1]))"
| "dispatch n (ReadUDP req) = onReadUDP n req"
| "dispatch n (WriteUDP req) = onWriteUDP n req"
| "dispatch n (DeleteConnUDP req) =
     (let (n1, req1) = onDeleteConnUDP n req in (n1, [AckDeleteConnUDP req1]))"

text \<open>
  \<^verbatim>\<open>loop\<close>, run on the requests that reach the actor, in their order of arrival. When
  \<^verbatim>\<open>closed\<close> is closed the loop returns; otherwise it handles the next request and
  goes on. It ends blocked in its \<^verbatim>\<open>select\<close> when no request is left. The result is
  the network and the acknowledgements produced, oldest first. (The loop takes the case
  \<^verbatim>\<open>closed\<close> as soon as it is ready: every goroutine that offers a request does so in a
  \<^verbatim>\<open>select\<close> that also waits on \<^verbatim>\<open>closed\<close>, see the handle below, so none is left
  offering one then. The invariant of the queues does not depend on this, and the other
  results use the loop on a closed network only with no request offered.)
\<close>

fun loop :: "Network \<Rightarrow> request list \<Rightarrow> Network \<times> ack list" where
  "loop n [] = (if net_closed n then (n\<lparr>loop_running := False\<rparr>, []) else (n, []))"
| "loop n (req # reqs) =
     (if net_closed n then (n\<lparr>loop_running := False\<rparr>, [])
      else (let (n1, acks1) = dispatch n req;
                (n2, acks2) = loop n1 reqs
            in (n2, acks1 @ acks2)))"

text \<open>
  The invariant of the data model: no address state has both a blocked read and a
  blocked write.
\<close>

definition queues_exclusive :: "Network \<Rightarrow> bool" where
  "queues_exclusive n =
     (\<forall>addr st. udp n addr = Some st \<longrightarrow> blockedReads st = [] \<or> blockedWrites st = [])"

section \<open>The connection handle (UDP conn)\<close>

subsection \<open>Deadlines and select\<close>

text \<open>
  The deadline timer (\<^verbatim>\<open>pipeDeadline\<close> with \<^verbatim>\<open>makePipeDeadline\<close>, \<^verbatim>\<open>set\<close> and
  \<^verbatim>\<open>wait\<close>) is used by the handle but is not among the sources. The specification
  describes it as a resettable single-fire wake-up source keyed by an absolute time: a
  timer set to a point in the past is already expired, and a "never" value disables the
  timeout. Time is counted in ticks; a deadline is \<open>None\<close> for "never" and
  \<open>Some t\<close> for the instant \<open>t\<close>.
\<close>

type_synonym time = nat

type_synonym pipeDeadline = "time option"

text \<open>Modelled from the spec: \<^verbatim>\<open>makePipeDeadline\<close>, which is not among the sources. A
  new timer has no deadline.\<close>

definition makePipeDeadline :: pipeDeadline where
  "makePipeDeadline = None"

text \<open>Modelled from the spec: \<^verbatim>\<open>pipeDeadline.set\<close>, which is not among the sources.
  Setting a deadline replaces the one the timer had.\<close>

definition set_deadline :: "pipeDeadline \<Rightarrow> time option \<Rightarrow> pipeDeadline" where
  "set_deadline d t = t"

text \<open>Modelled from the spec: \<^verbatim>\<open>pipeDeadline.wait\<close>, which is not among the sources.
  The channel it returns is ready at time \<open>now\<close> when the deadline is not after
  \<open>now\<close>, and never when there is no deadline.\<close>

definition wait_ready :: "pipeDeadline \<Rightarrow> time \<Rightarrow> bool" where
  "wait_ready d now = (case d of None \<Rightarrow> False | Some t \<Rightarrow> t \<le> now)"

text \<open>
  A Go \<^verbatim>\<open>select\<close> statement without a default case, at one instant: each case is
  paired with whether its channel operation can proceed, and the statement may take any
  case that can. The result lists the cases that may be taken, in the order of the
  source; the empty list means that the goroutine stays blocked.
\<close>

definition go_select :: "(bool \<times> 'a) list \<Rightarrow> 'a list" where
  "go_select cases = map snd (filter fst cases)"

text \<open>
  The handle's operations run two \<^verbatim>\<open>select\<close> statements in a row: the first hands
  the request to the actor (\<open>Sent\<close>) unless another case returns first
  (\<open>Return\<close>); the second waits for the acknowledgement.

  The request channels are unbuffered, so a send on one of them can proceed only when the
  actor's goroutine waits in the \<^verbatim>\<open>select\<close> of its loop, ready to receive. That
  \<^verbatim>\<open>select\<close> has the case \<^verbatim>\<open><-n.closed\<close>. If the goroutine is blocked there when
  \<^verbatim>\<open>Network.Close\<close> closes the channel, it is woken by that case and returns; if it is
  handling a request at that moment, it finds the case ready when it comes back to the
  \<^verbatim>\<open>select\<close> and does not block, and no sender is left waiting there, since
  every \<^verbatim>\<open>select\<close> that sends a request also has the case \<^verbatim>\<open><-network.closed\<close> and
  was woken by it. Either way the actor never waits for a request again once
  \<^verbatim>\<open>closed\<close> is closed. So the send of a request can proceed only while the loop is
  running and \<^verbatim>\<open>closed\<close> is not closed.
\<close>

datatype 'a issued = Return 'a | Sent

subsection \<open>The handle\<close>

text \<open>
  The \<^verbatim>\<open>UDPConn\<close> struct. \<open>conn_closed\<close> says whether the channel \<^verbatim>\<open>closed\<close> has
  been closed, \<open>conn_once\<close> whether the \<^verbatim>\<open>sync.Once\<close> has run. The pointer to the
  network is left out: the operations take the network as an argument.
\<close>

record UDPConn =
  conn_closed :: bool
  localAddr :: AddrPort
  conn_once :: bool
  peerAddr :: AddrPort
  readDeadline :: pipeDeadline
  writeDeadline :: pipeDeadline

text \<open>\<^verbatim>\<open>NewUDPConn\<close>: the handle and the request it builds.\<close>

definition NewUDPConn_conn :: "AddrPort \<Rightarrow> AddrPort \<Rightarrow> UDPConn" where
  "NewUDPConn_conn la pa =
     \<lparr>conn_closed = False, localAddr = la, conn_once = False, peerAddr = pa,
      readDeadline = makePipeDeadline, writeDeadline = makePipeDeadline\<rparr>"

definition NewUDPConn_req :: "AddrPort \<Rightarrow> networkNewConnUDP" where
  "NewUDPConn_req la = \<lparr>nc_ack = False, nc_err = None, nc_localAddr = la\<rparr>"

text \<open>The two \<^verbatim>\<open>select\<close> statements of \<^verbatim>\<open>NewUDPConn\<close>.\<close>

definition NewUDPConn_issue :: "Network \<Rightarrow> (UDPConn option \<times> error option) issued list" where
  "NewUDPConn_issue network =
     go_select [(net_closed network, Return (None, Some ErrClosed)),
                (\<not> net_closed network \<and> loop_running network, Sent)]"

definition NewUDPConn_ack ::
  "Network \<Rightarrow> UDPConn \<Rightarrow> networkNewConnUDP \<Rightarrow> (UDPConn option \<times> error option) list" where
  "NewUDPConn_ack network c req =
     go_select [(net_closed network, (None, Some ErrClosed)),
                (nc_ack req, (Some c, nc_err req))]"

text \<open>
  \<^verbatim>\<open>NewUDPConn\<close> as a whole, when no other goroutine acts on the network during the
  call: every outcome the call may have, as the network afterwards and the pair the
  call returns.
\<close>

definition NewUDPConn ::
  "Network \<Rightarrow> AddrPort \<Rightarrow> AddrPort \<Rightarrow> (Network \<times> UDPConn option \<times> error option) list" where
  "NewUDPConn network la pa =
     (let c = NewUDPConn_conn la pa;
          req = NewUDPConn_req la
      in concat (map (\<lambda>i. case i of
                      Return r \<Rightarrow> [(network, r)]
                    | Sent \<Rightarrow> (let (n1, req1) = onNewConnUDP network req
                               in map (Pair n1) (NewUDPConn_ack n1 c req1)))
                  (NewUDPConn_issue network)))"

definition SetReadDeadline :: "UDPConn \<Rightarrow> time option \<Rightarrow> UDPConn \<times> error option" where
  "SetReadDeadline c t =
     (if conn_closed c then (c, Some ErrClosed)
      else (c\<lparr>readDeadline := set_deadline (readDeadline c) t\<rparr>, None))"

definition SetWriteDeadline :: "UDPConn \<Rightarrow> time option \<Rightarrow> UDPConn \<times> error option" where
  "SetWriteDeadline c t =
     (if conn_closed c then (c, Some ErrClosed)
      else (c\<lparr>writeDeadline := set_deadline (writeDeadline c) t\<rparr>, None))"

definition SetDeadline :: "UDPConn \<Rightarrow> time option \<Rightarrow> UDPConn \<times> error option" where
  "SetDeadline c t =
     (case SetReadDeadline c t of
        (c1, Some err) \<Rightarrow> (c1, Some err)
      | (c1, None) \<Rightarrow> SetWriteDeadline c1 t)"

text \<open>
  \<^verbatim>\<open>UDPConn.Close\<close>, when no other goroutine acts on the network during the call:
  the handle and the network afterwards, and the error returned (always \<^verbatim>\<open>nil\<close>).
  The body of \<^verbatim>\<open>once.Do\<close> runs at the first call only.
\<close>

definition UDPConn_Close_req :: "UDPConn \<Rightarrow> networkDeleteConnUDP" where
  "UDPConn_Close_req c = \<lparr>dc_ack = False, dc_err = None, dc_localAddr = localAddr c\<rparr>"

definition UDPConn_Close :: "UDPConn \<Rightarrow> Network \<Rightarrow> (UDPConn \<times> Network \<times> error option) list" where
  "UDPConn_Close c network =
     (if conn_once c then [(c, network, None)]
      else (let c1 = c\<lparr>conn_once := True, conn_closed := True\<rparr> in
        concat (map (\<lambda>i. case i of
                      Return u \<Rightarrow> [(c1, network, None)]
                    | Sent \<Rightarrow> (let (n1, req1) = onDeleteConnUDP network (UDPConn_Close_req c)
                               in map (\<lambda>u. (c1, n1, None))
                                    (go_select [(net_closed n1, ()), (dc_ack req1, ())])))
                  (go_select [(net_closed network, Return ()), (\<not> net_closed network \<and> loop_running network, Sent)]))))"

subsection \<open>Receiving\<close>

type_synonym read_result = "int \<times> AddrPort \<times> error option"

definition commonRead_req :: "UDPConn \<Rightarrow> byte list \<Rightarrow> networkReadUDP" where
  "commonRead_req c buffer =
     \<lparr>r_ack = False, r_buffer = buffer, r_count = 0, r_err = None,
      r_localAddr = localAddr c, r_senderAddr = zeroAddrPort\<rparr>"

text \<open>The first \<^verbatim>\<open>select\<close> of \<^verbatim>\<open>commonRead\<close>, at time \<open>now\<close>.\<close>

definition commonRead_issue :: "UDPConn \<Rightarrow> Network \<Rightarrow> time \<Rightarrow> read_result issued list" where
  "commonRead_issue c network now =
     go_select [(conn_closed c, Return (0, zeroAddrPort, Some ErrClosed)),
                (net_closed network, Return (0, zeroAddrPort, Some ErrClosed)),
                (wait_ready (readDeadline c) now, Return (0, zeroAddrPort, Some ErrDeadlineExceeded)),
                (\<not> net_closed network \<and> loop_running network, Sent)]"

text \<open>
  The second \<^verbatim>\<open>select\<close> of \<^verbatim>\<open>commonRead\<close>, at time \<open>now\<close>; \<open>req\<close> is the request as
  the actor has left it so far.
\<close>

definition commonRead_ack ::
  "UDPConn \<Rightarrow> Network \<Rightarrow> time \<Rightarrow> networkReadUDP \<Rightarrow> read_result list" where
  "commonRead_ack c network now req =
     go_select [(conn_closed c, (0, zeroAddrPort, Some ErrClosed)),
                (net_closed network, (0, zeroAddrPort, Some ErrClosed)),
                (wait_ready (readDeadline c) now, (0, zeroAddrPort, Some ErrDeadlineExceeded)),
                (r_ack req, (r_count req, r_senderAddr req, r_err req))]"

text \<open>
  \<^verbatim>\<open>ReadFrom\<close>, given the result of its call of \<^verbatim>\<open>commonRead\<close>. The address
  \<^verbatim>\<open>net.UDPAddrFromAddrPort(source)\<close> is \<open>Some source\<close>, and \<open>None\<close> is
  \<^verbatim>\<open>nil\<close>.
\<close>

definition ReadFrom_after :: "read_result \<Rightarrow> int \<times> AddrPort option \<times> error option" where
  "ReadFrom_after r =
     (case r of (count, source, err) \<Rightarrow>
        if err \<noteq> None then (0, None, err) else (count, Some source, None))"

text \<open>
  \<^verbatim>\<open>ReadFrom\<close> on the outcomes that its call of \<^verbatim>\<open>commonRead\<close> may have; a connected
  handle returns before that call.
\<close>

definition ReadFrom ::
  "UDPConn \<Rightarrow> read_result list \<Rightarrow> (int \<times> AddrPort option \<times> error option) list" where
  "ReadFrom c rs =
     (if IsValid (peerAddr c) then [(0, None, Some EISCONN)] else map ReadFrom_after rs)"

text \<open>
  The loop of \<^verbatim>\<open>Read\<close>. The list gives what the successive calls of
  \<^verbatim>\<open>commonRead\<close> return, in order. The loop may go on for ever; \<open>None\<close>
  says that it has used up the list without returning. Otherwise the result is what
  \<^verbatim>\<open>Read\<close> returns and the number of calls of \<^verbatim>\<open>commonRead\<close> it has made.
\<close>

fun Read_loop :: "AddrPort \<Rightarrow> read_result list \<Rightarrow> ((int \<times> error option) \<times> nat) option" where
  "Read_loop peer [] = None"
| "Read_loop peer ((count, source, err) # rest) =
     (if err \<noteq> None then Some ((0, err), 1)
      else if source \<noteq> peer
        then map_option (\<lambda>(res, calls). (res, Suc calls)) (Read_loop peer rest)
      else Some ((count, None), 1))"

definition Read :: "UDPConn \<Rightarrow> read_result list \<Rightarrow> ((int \<times> error option) \<times> nat) option" where
  "Read c rs =
     (if \<not> IsValid (peerAddr c) then Some ((0, Some ENOTCONN), 0)
      else Read_loop (peerAddr c) rs)"

subsection \<open>Sending\<close>

type_synonym write_result = "int \<times> error option"

definition commonWrite_req :: "UDPConn \<Rightarrow> byte list \<Rightarrow> AddrPort \<Rightarrow> networkWriteUDP" where
  "commonWrite_req c data dest =
     \<lparr>w_ack = False, w_destAddr = dest, w_err = None, w_payload = data,
      w_sourceAddr = localAddr c\<rparr>"

text \<open>The first \<^verbatim>\<open>select\<close> of \<^verbatim>\<open>commonWrite\<close>, at time \<open>now\<close>.\<close>

definition commonWrite_issue :: "UDPConn \<Rightarrow> Network \<Rightarrow> time \<Rightarrow> write_result issued list" where
  "commonWrite_issue c network now =
     go_select [(conn_closed c, Return (0, Some ErrClosed)),
                (net_closed network, Return (0, Some ErrClosed)),
                (wait_ready (readDeadline c) now, Return (0, Some ErrDeadlineExceeded)),
                (\<not> net_closed network \<and> loop_running network, Sent)]"

text \<open>
  The second \<^verbatim>\<open>select\<close> of \<^verbatim>\<open>commonWrite\<close>, at time \<open>now\<close>; \<open>req\<close> is the request
  as the actor has left it so far.
\<close>

definition commonWrite_ack ::
  "UDPConn \<Rightarrow> Network \<Rightarrow> time \<Rightarrow> byte list \<Rightarrow> networkWriteUDP \<Rightarrow> write_result list" where
  "commonWrite_ack c network now data req =
     go_select [(conn_closed c, (0, Some ErrClosed)),
                (net_closed network, (0, Some ErrClosed)),
                (wait_ready (readDeadline c) now, (0, Some ErrDeadlineExceeded)),
                (w_ack req, (int (length data), w_err req))]"

text \<open>
  \<^verbatim>\<open>Write\<close> and \<^verbatim>\<open>WriteTo\<close> up to the first \<^verbatim>\<open>select\<close> of \<^verbatim>\<open>commonWrite\<close>, and
  the request each of them builds. For \<^verbatim>\<open>WriteTo\<close> the argument \<open>parsed\<close> is the
  result of \<^verbatim>\<open>netip.ParseAddrPort(addr.String())\<close>, \<open>None\<close> when it fails.
\<close>

definition Write_issue :: "UDPConn \<Rightarrow> Network \<Rightarrow> time \<Rightarrow> write_result issued list" where
  "Write_issue c network now =
     (if \<not> IsValid (peerAddr c) then [Return (0, Some ENOTCONN)]
      else commonWrite_issue c network now)"

definition Write_req :: "UDPConn \<Rightarrow> byte list \<Rightarrow> networkWriteUDP" where
  "Write_req c data = commonWrite_req c data (peerAddr c)"

definition WriteTo_issue ::
  "UDPConn \<Rightarrow> AddrPort option \<Rightarrow> Network \<Rightarrow> time \<Rightarrow> write_result issued list" where
  "WriteTo_issue c parsed network now =
     (if IsValid (peerAddr c) then [Return (0, Some EISCONN)]
      else case parsed of
             None \<Rightarrow> [Return (0, Some EINVAL)]
           | Some dest \<Rightarrow> commonWrite_issue c network now)"

definition WriteTo_req :: "UDPConn \<Rightarrow> byte list \<Rightarrow> AddrPort \<Rightarrow> networkWriteUDP" where
  "WriteTo_req c data dest = commonWrite_req c data dest"

section \<open>Example values\<close>

text \<open>Two addresses, an unconnected handle on each, and a few networks, used to run the
  definitions on concrete inputs.\<close>

definition addrA :: AddrPort where
  "addrA = AddrPort (IPv4 0x0A000001) 5000"

definition addrB :: AddrPort where
  "addrB = AddrPort (IPv4 0x0A000002) 5000"

definition connA :: UDPConn where
  "connA = NewUDPConn_conn addrA zeroAddrPort"

definition connB :: UDPConn where
  "connB = NewUDPConn_conn addrB zeroAddrPort"

text \<open>The network after \<open>addrA\<close> has been bound and a receive with a buffer of two
  bytes has been parked there.\<close>

definition netA_reading :: Network where
  "netA_reading =
     fst (loop NewNetwork
            [NewConnUDP (NewUDPConn_req addrA), ReadUDP (commonRead_req connA [0, 0])])"

text \<open>The network after \<open>addrA\<close> has been bound.\<close>

definition netA_bound :: Network where
  "netA_bound = fst (loop NewNetwork [NewConnUDP (NewUDPConn_req addrA)])"

text \<open>The address whose state a request acts on: the local address of a bind, a receive
  or an unbind, and the destination of a send.\<close>

definition touches :: "AddrPort \<Rightarrow> request \<Rightarrow> bool" where
  "touches addr req =
     (case req of
        NewConnUDP r \<Rightarrow> nc_localAddr r = addr
      | ReadUDP r \<Rightarrow> r_localAddr r = addr
      | WriteUDP r \<Rightarrow> w_destAddr r = addr
      | DeleteConnUDP r \<Rightarrow> dc_localAddr r = addr)"

text \<open>The network \<open>netA_bound\<close> as a call of \<^verbatim>\<open>Network.Close\<close> leaves it.\<close>
definition netA_closed :: Network where
  "netA_closed = fst (Network_Close netA_bound)"

text \<open>The network after \<open>addrA\<close> and \<open>addrB\<close> have been bound.\<close>
definition netAB_bound :: Network where
  "netAB_bound =
     fst (loop NewNetwork [NewConnUDP (NewUDPConn_req addrA), NewConnUDP (NewUDPConn_req addrB)])"

text \<open>A handle on \<open>addrA\<close> connected to \<open>addrB\<close>.\<close>
definition connAB :: UDPConn where
  "connAB = NewUDPConn_conn addrA addrB"

section \<open>Properties of the actor\<close>

lemma dispatch_net_closed: "net_closed (fst (dispatch n req)) = net_closed n"
  by (cases req)
     (simp_all add: onNewConnUDP_def onReadUDP_def onWriteUDP_def onDeleteConnUDP_def
        split_beta split: option.splits)

lemma onNewConnUDP_exclusive:
  "queues_exclusive n \<Longrightarrow> queues_exclusive (fst (onNewConnUDP n req))"
  by (simp add: queues_exclusive_def onNewConnUDP_def)

lemma onDeleteConnUDP_exclusive:
  "queues_exclusive n \<Longrightarrow> queues_exclusive (fst (onDeleteConnUDP n req))"
  by (simp add: queues_exclusive_def onDeleteConnUDP_def)

lemma onReadUDP_exclusive:
  "queues_exclusive n \<Longrightarrow> queues_exclusive (fst (onReadUDP n read))"
  unfolding queues_exclusive_def onReadUDP_def
  by (cases "udp n (r_localAddr read)") (auto split: if_splits)

lemma onWriteUDP_exclusive:
  "queues_exclusive n \<Longrightarrow> queues_exclusive (fst (onWriteUDP n write))"
  unfolding queues_exclusive_def onWriteUDP_def
  by (cases "udp n (w_destAddr write)") (auto split: if_splits)

lemma dispatch_exclusive:
  "queues_exclusive n \<Longrightarrow> queues_exclusive (fst (dispatch n req))"
  by (cases req)
     (simp_all add: onNewConnUDP_exclusive onReadUDP_exclusive onWriteUDP_exclusive
        onDeleteConnUDP_exclusive split_beta)

lemma NewNetwork_exclusive: "queues_exclusive NewNetwork"
  by (simp add: queues_exclusive_def NewNetwork_def)

lemma loop_exclusive:
  "queues_exclusive n \<Longrightarrow> queues_exclusive (fst (loop n reqs))"
proof (induction reqs arbitrary: n)
  case Nil
  then show ?case by (simp add: queues_exclusive_def)
next
  case (Cons req reqs)
  show ?case
  proof (cases "net_closed n")
    case True
    with Cons.prems show ?thesis by (simp add: queues_exclusive_def)
  next
    case False
    have "queues_exclusive (fst (loop (fst (dispatch n req)) reqs))"
      using Cons.IH dispatch_exclusive [OF Cons.prems] by blast
    with False show ?thesis by (simp add: split_beta)
  qed
qed

lemma netA_reading_eq:
  "netA_reading = \<lparr>net_closed = False, net_once = False,
      udp = [addrA \<mapsto> \<lparr>blockedReads = [commonRead_req connA [0, 0]], blockedWrites = []\<rparr>],
      loop_running = True\<rparr>"
  by (simp add: netA_reading_def NewNetwork_def NewUDPConn_req_def onNewConnUDP_def
      onReadUDP_def commonRead_req_def connA_def NewUDPConn_conn_def)

subsection \<open>The queue invariant\<close>

text \<open>
  C2: for every address state of the actor at most one of the two queues (blocked reads,
  blocked writes) is non-empty, and every step of the actor (bind, unbind, send, receive)
  keeps it so: a send that finds a blocked read is matched with the oldest one at once
  and is enqueued only when no read is blocked, and a receive likewise with the blocked
  writes. The invariant holds in a new network, so it holds in every network the loop
  reaches from one.
\<close>

theorem queues_exclusive_step:
  assumes "queues_exclusive n"
  shows "queues_exclusive (fst (dispatch n req)) \<and>
    (\<forall>w dest. req = WriteUDP w \<and> udp n (w_destAddr w) = Some dest \<longrightarrow>
       dispatch n req =
         (if blockedReads dest \<noteq> []
          then (n\<lparr>udp := (udp n)(w_destAddr w \<mapsto> dest\<lparr>blockedReads := tl (blockedReads dest)\<rparr>)\<rparr>,
                finishReadWrite (hd (blockedReads dest)) w)
          else (n\<lparr>udp := (udp n)(w_destAddr w \<mapsto> dest\<lparr>blockedWrites := blockedWrites dest @ [w]\<rparr>)\<rparr>,
                []))) \<and>
    (\<forall>r source. req = ReadUDP r \<and> udp n (r_localAddr r) = Some source \<longrightarrow>
       dispatch n req =
         (if blockedWrites source \<noteq> []
          then (n\<lparr>udp := (udp n)(r_localAddr r \<mapsto> source\<lparr>blockedWrites := tl (blockedWrites source)\<rparr>)\<rparr>,
                finishReadWrite r (hd (blockedWrites source)))
          else (n\<lparr>udp := (udp n)(r_localAddr r \<mapsto> source\<lparr>blockedReads := blockedReads source @ [r]\<rparr>)\<rparr>,
                []))) \<and>
    queues_exclusive (fst (loop n reqs)) \<and>
    queues_exclusive NewNetwork"
proof (intro conjI allI impI)
  show "queues_exclusive (fst (dispatch n req))"
    using assms by (rule dispatch_exclusive)
  show "queues_exclusive (fst (loop n reqs))"
    using assms by (rule loop_exclusive)
  show "queues_exclusive NewNetwork"
    by (rule NewNetwork_exclusive)
next
  fix w dest
  assume "req = WriteUDP w \<and> udp n (w_destAddr w) = Some dest"
  then show "dispatch n req =
         (if blockedReads dest \<noteq> []
          then (n\<lparr>udp := (udp n)(w_destAddr w \<mapsto> dest\<lparr>blockedReads := tl (blockedReads dest)\<rparr>)\<rparr>,
                finishReadWrite (hd (blockedReads dest)) w)
          else (n\<lparr>udp := (udp n)(w_destAddr w \<mapsto> dest\<lparr>blockedWrites := blockedWrites dest @ [w]\<rparr>)\<rparr>,
                []))"
    by (simp add: onWriteUDP_def)
next
  fix r source
  assume "req = ReadUDP r \<and> udp n (r_localAddr r) = Some source"
  then show "dispatch n req =
         (if blockedWrites source \<noteq> []
          then (n\<lparr>udp := (udp n)(r_localAddr r \<mapsto> source\<lparr>blockedWrites := tl (blockedWrites source)\<rparr>)\<rparr>,
                finishReadWrite r (hd (blockedWrites source)))
          else (n\<lparr>udp := (udp n)(r_localAddr r \<mapsto> source\<lparr>blockedReads := blockedReads source @ [r]\<rparr>)\<rparr>,
                []))"
    by (simp add: onReadUDP_def)
qed

theorem queues_exclusive_step_witness:
  "queues_exclusive netA_reading \<and>
   queues_exclusive (fst (dispatch netA_reading (WriteUDP (WriteTo_req connB [1, 2, 3] addrA)))) \<and>
   udp (fst (dispatch netA_reading (WriteUDP (WriteTo_req connB [1, 2, 3] addrA)))) addrA =
     Some \<lparr>blockedReads = [], blockedWrites = []\<rparr>"
proof -
  have h: "queues_exclusive netA_reading"
    unfolding netA_reading_def by (rule loop_exclusive [OF NewNetwork_exclusive])
  have "udp (fst (dispatch netA_reading (WriteUDP (WriteTo_req connB [1, 2, 3] addrA)))) addrA =
     Some \<lparr>blockedReads = [], blockedWrites = []\<rparr>"
    by (simp add: netA_reading_eq onWriteUDP_def WriteTo_req_def commonWrite_req_def)
  with h queues_exclusive_step [OF h, of "WriteUDP (WriteTo_req connB [1, 2, 3] addrA)"]
  show ?thesis by simp
qed

lemma netA_bound_eq:
  "netA_bound = \<lparr>net_closed = False, net_once = False,
      udp = [addrA \<mapsto> \<lparr>blockedReads = [], blockedWrites = []\<rparr>], loop_running = True\<rparr>"
  by (simp add: netA_bound_def NewNetwork_def NewUDPConn_req_def onNewConnUDP_def)

lemma loop_open_Cons:
  "\<not> net_closed n \<Longrightarrow>
   loop n (req # reqs) =
     (fst (loop (fst (dispatch n req)) reqs), snd (dispatch n req) @ snd (loop (fst (dispatch n req)) reqs))"
  by (simp add: split_beta)

subsection \<open>Sending to an address that is not bound\<close>

text \<open>
  C5: a send whose destination has no entry in the address map is acknowledged at once
  and without an error, the address map and every queue stay as they were, and no
  receive ever observes the payload: whatever requests follow, the actor ends in the same
  network and produces the same acknowledgements as if the send had never arrived. At the
  handle, \<^verbatim>\<open>commonWrite\<close> then returns the length of the data and no error.
\<close>

theorem send_to_unbound_is_dropped:
  assumes "udp n (w_destAddr w) = None"
  shows "onWriteUDP n w = (n, [AckWriteUDP (w\<lparr>w_ack := True\<rparr>)]) \<and>
    (\<not> net_closed n \<longrightarrow>
       loop n (WriteUDP w # reqs) =
         (fst (loop n reqs), AckWriteUDP (w\<lparr>w_ack := True\<rparr>) # snd (loop n reqs))) \<and>
    (w = commonWrite_req c data (w_destAddr w) \<and> \<not> conn_closed c \<and> \<not> net_closed n \<and>
       \<not> wait_ready (readDeadline c) now \<longrightarrow>
       commonWrite_ack c n now data (w\<lparr>w_ack := True\<rparr>) = [(int (length data), None)])"
proof (intro conjI impI)
  show first: "onWriteUDP n w = (n, [AckWriteUDP (w\<lparr>w_ack := True\<rparr>)])"
    using assms by (simp add: onWriteUDP_def)
  show "loop n (WriteUDP w # reqs) =
         (fst (loop n reqs), AckWriteUDP (w\<lparr>w_ack := True\<rparr>) # snd (loop n reqs))"
    if "\<not> net_closed n"
    using that first by (simp add: loop_open_Cons del: loop.simps)
  show "commonWrite_ack c n now data (w\<lparr>w_ack := True\<rparr>) = [(int (length data), None)]"
    if h: "w = commonWrite_req c data (w_destAddr w) \<and> \<not> conn_closed c \<and> \<not> net_closed n \<and>
       \<not> wait_ready (readDeadline c) now"
  proof -
    from h have "w_err w = None"
      by (metis commonWrite_req_def networkWriteUDP.select_convs(3))
    with h show ?thesis
      by (simp add: commonWrite_ack_def go_select_def)
  qed
qed

theorem send_to_unbound_is_dropped_witness:
  "udp NewNetwork (w_destAddr (WriteTo_req connA [7, 8] addrB)) = None \<and>
   loop NewNetwork
     [WriteUDP (WriteTo_req connA [7, 8] addrB),
      NewConnUDP (NewUDPConn_req addrB),
      ReadUDP (commonRead_req connB [0, 0])] =
   (fst (loop NewNetwork [NewConnUDP (NewUDPConn_req addrB), ReadUDP (commonRead_req connB [0, 0])]),
    AckWriteUDP ((WriteTo_req connA [7, 8] addrB)\<lparr>w_ack := True\<rparr>) #
    snd (loop NewNetwork [NewConnUDP (NewUDPConn_req addrB), ReadUDP (commonRead_req connB [0, 0])])) \<and>
   snd (loop NewNetwork [NewConnUDP (NewUDPConn_req addrB), ReadUDP (commonRead_req connB [0, 0])]) =
     [AckNewConnUDP ((NewUDPConn_req addrB)\<lparr>nc_ack := True\<rparr>)] \<and>
   commonWrite_ack connA NewNetwork 0 [7, 8] ((WriteTo_req connA [7, 8] addrB)\<lparr>w_ack := True\<rparr>) =
     [(2, None)]"
proof -
  have h: "udp NewNetwork (w_destAddr (WriteTo_req connA [7, 8] addrB)) = None"
    by (simp add: NewNetwork_def)
  have c: "\<not> net_closed NewNetwork" by (simp add: NewNetwork_def)
  have r: "snd (loop NewNetwork [NewConnUDP (NewUDPConn_req addrB), ReadUDP (commonRead_req connB [0, 0])]) =
     [AckNewConnUDP ((NewUDPConn_req addrB)\<lparr>nc_ack := True\<rparr>)]"
    by (simp add: NewNetwork_def NewUDPConn_req_def onNewConnUDP_def onReadUDP_def
        commonRead_req_def connB_def NewUDPConn_conn_def split_beta)
  have w: "WriteTo_req connA [7, 8] addrB =
      commonWrite_req connA [7, 8] (w_destAddr (WriteTo_req connA [7, 8] addrB)) \<and>
      \<not> conn_closed connA \<and> \<not> net_closed NewNetwork \<and> \<not> wait_ready (readDeadline connA) 0"
    by (simp add: WriteTo_req_def commonWrite_req_def connA_def NewUDPConn_conn_def NewNetwork_def
        wait_ready_def makePipeDeadline_def)
  from send_to_unbound_is_dropped [OF h, of
      "[NewConnUDP (NewUDPConn_req addrB), ReadUDP (commonRead_req connB [0, 0])]" connA "[7, 8]" 0]
    h c r w
  show ?thesis by (simp del: loop.simps)
qed

subsection \<open>Failing requests\<close>

text \<open>
  C10: an actor operation that fails leaves the address map as it was. A bind that is
  acknowledged with an error, a receive that is acknowledged with an error and an unbind
  that is acknowledged with an error each return the network unchanged; the errors are
  \<^verbatim>\<open>EADDRNOTAVAIL\<close> for the bind and \<^verbatim>\<open>EBADF\<close> for the receive and the unbind. The
  requests are taken as the handle builds them, with no error set.
\<close>

theorem failed_request_leaves_network:
  "(nc_err req = None \<and> nc_err (snd (onNewConnUDP n req)) \<noteq> None \<longrightarrow>
      onNewConnUDP n req = (n, req\<lparr>nc_err := Some EADDRNOTAVAIL, nc_ack := True\<rparr>)) \<and>
   (r_err read = None \<and> AckReadUDP r \<in> set (snd (onReadUDP n read)) \<and> r_err r \<noteq> None \<longrightarrow>
      onReadUDP n read = (n, [AckReadUDP (read\<lparr>r_err := Some EBADF, r_ack := True\<rparr>)])) \<and>
   (dc_err del = None \<and> dc_err (snd (onDeleteConnUDP n del)) \<noteq> None \<longrightarrow>
      onDeleteConnUDP n del = (n, del\<lparr>dc_err := Some EBADF, dc_ack := True\<rparr>))"
  by (auto simp add: onNewConnUDP_def onReadUDP_def onDeleteConnUDP_def finishReadWrite_def
      go_copy_def Let_def split: option.splits if_splits)


lemma dispatch_loop_running: "loop_running (fst (dispatch n req)) = loop_running n"
  by (cases req)
     (simp_all add: onNewConnUDP_def onReadUDP_def onWriteUDP_def onDeleteConnUDP_def
        split_beta split: option.splits)

lemma loop_net_closed: "net_closed (fst (loop n reqs)) = net_closed n"
  by (induction reqs arbitrary: n) (simp_all add: split_beta dispatch_net_closed)

lemma loop_open_running:
  "\<not> net_closed n \<Longrightarrow> loop_running (fst (loop n reqs)) = loop_running n"
  by (induction reqs arbitrary: n)
     (simp_all add: split_beta dispatch_net_closed dispatch_loop_running)

lemma dispatch_stays_bound:
  assumes "udp n la \<noteq> None" and "\<forall>d. req = DeleteConnUDP d \<longrightarrow> dc_localAddr d \<noteq> la"
  shows "udp (fst (dispatch n req)) la \<noteq> None"
  using assms
  by (cases req)
     (auto simp add: onNewConnUDP_def onReadUDP_def onWriteUDP_def onDeleteConnUDP_def
        split: option.splits if_splits)

lemma loop_stays_bound:
  assumes "udp n la \<noteq> None"
    and "\<forall>d. DeleteConnUDP d \<in> set reqs \<longrightarrow> dc_localAddr d \<noteq> la"
  shows "udp (fst (loop n reqs)) la \<noteq> None"
  using assms
proof (induction reqs arbitrary: n)
  case Nil
  then show ?case by simp
next
  case (Cons req reqs)
  show ?case
  proof (cases "net_closed n")
    case True
    with Cons.prems show ?thesis by simp
  next
    case False
    have "udp (fst (dispatch n req)) la \<noteq> None"
      using Cons.prems by (intro dispatch_stays_bound) auto
    then have "udp (fst (loop (fst (dispatch n req)) reqs)) la \<noteq> None"
      using Cons.prems by (intro Cons.IH) auto
    with False show ?thesis by (simp add: split_beta)
  qed
qed

lemma NewUDPConn_open:
  assumes "\<not> net_closed n" and "loop_running n"
  shows "NewUDPConn n la pa =
    [(fst (onNewConnUDP n (NewUDPConn_req la)), Some (NewUDPConn_conn la pa),
      nc_err (snd (onNewConnUDP n (NewUDPConn_req la))))]"
  using assms
  by (simp add: NewUDPConn_def NewUDPConn_issue_def NewUDPConn_ack_def go_select_def
      onNewConnUDP_def Let_def)

subsection \<open>Binding\<close>

text \<open>
  C6, as amended: a bind of an address with no entry creates an entry with two empty
  queues and reports no error; a bind of an address that has an entry leaves the network
  as it is and fails with \<^verbatim>\<open>syscall.EADDRNOTAVAIL\<close>. In particular, on a running
  network, \<^verbatim>\<open>NewUDPConn\<close> on a free address succeeds, and a second \<^verbatim>\<open>NewUDPConn\<close> on
  the same address, after any requests among which none unbinds that address, fails with
  \<^verbatim>\<open>EADDRNOTAVAIL\<close> (and still returns a handle along with the error).
\<close>

theorem bind_creates_or_is_refused:
  "(udp n (nc_localAddr req) = None \<longrightarrow>
      onNewConnUDP n req =
        (n\<lparr>udp := (udp n)(nc_localAddr req \<mapsto> \<lparr>blockedReads = [], blockedWrites = []\<rparr>)\<rparr>,
         req\<lparr>nc_ack := True\<rparr>)) \<and>
   (udp n (nc_localAddr req) \<noteq> None \<longrightarrow>
      onNewConnUDP n req = (n, req\<lparr>nc_err := Some EADDRNOTAVAIL, nc_ack := True\<rparr>)) \<and>
   (\<not> net_closed n \<and> loop_running n \<and> udp n la = None \<and>
    (\<forall>d. DeleteConnUDP d \<in> set reqs \<longrightarrow> dc_localAddr d \<noteq> la) \<longrightarrow>
      (\<exists>n1. NewUDPConn n la pa = [(n1, Some (NewUDPConn_conn la pa), None)] \<and>
            udp n1 la = Some \<lparr>blockedReads = [], blockedWrites = []\<rparr> \<and>
            NewUDPConn (fst (loop n1 reqs)) la pa' =
              [(fst (loop n1 reqs), Some (NewUDPConn_conn la pa'), Some EADDRNOTAVAIL)]))"
proof (intro conjI impI)
  show "onNewConnUDP n req =
        (n\<lparr>udp := (udp n)(nc_localAddr req \<mapsto> \<lparr>blockedReads = [], blockedWrites = []\<rparr>)\<rparr>,
         req\<lparr>nc_ack := True\<rparr>)" if "udp n (nc_localAddr req) = None"
    using that by (simp add: onNewConnUDP_def)
  show "onNewConnUDP n req = (n, req\<lparr>nc_err := Some EADDRNOTAVAIL, nc_ack := True\<rparr>)"
    if "udp n (nc_localAddr req) \<noteq> None"
    using that by (simp add: onNewConnUDP_def)
  show "\<exists>n1. NewUDPConn n la pa = [(n1, Some (NewUDPConn_conn la pa), None)] \<and>
            udp n1 la = Some \<lparr>blockedReads = [], blockedWrites = []\<rparr> \<and>
            NewUDPConn (fst (loop n1 reqs)) la pa' =
              [(fst (loop n1 reqs), Some (NewUDPConn_conn la pa'), Some EADDRNOTAVAIL)]"
    if h: "\<not> net_closed n \<and> loop_running n \<and> udp n la = None \<and>
      (\<forall>d. DeleteConnUDP d \<in> set reqs \<longrightarrow> dc_localAddr d \<noteq> la)"
  proof -
    define n1 where "n1 = n\<lparr>udp := (udp n)(la \<mapsto> \<lparr>blockedReads = [], blockedWrites = []\<rparr>)\<rparr>"
    define n2 where "n2 = fst (loop n1 reqs)"
    have first: "NewUDPConn n la pa = [(n1, Some (NewUDPConn_conn la pa), None)]"
      using h by (simp add: NewUDPConn_open n1_def onNewConnUDP_def NewUDPConn_req_def)
    have bound1: "udp n1 la = Some \<lparr>blockedReads = [], blockedWrites = []\<rparr>"
      by (simp add: n1_def)
    have open1: "\<not> net_closed n1" "loop_running n1"
      using h by (simp_all add: n1_def)
    have open2: "\<not> net_closed n2" "loop_running n2"
      using open1 by (simp_all add: n2_def loop_net_closed loop_open_running)
    have bound2: "udp n2 la \<noteq> None"
      unfolding n2_def using bound1 h by (intro loop_stays_bound) auto
    have "NewUDPConn n2 la pa' = [(n2, Some (NewUDPConn_conn la pa'), Some EADDRNOTAVAIL)]"
      using open2 bound2 by (simp add: NewUDPConn_open onNewConnUDP_def NewUDPConn_req_def)
    with first bound1 show ?thesis unfolding n2_def by blast
  qed
qed

theorem bind_creates_or_is_refused_witness:
  "NewUDPConn NewNetwork addrA zeroAddrPort = [(netA_bound, Some connA, None)] \<and>
   NewUDPConn (fst (loop netA_bound [ReadUDP (commonRead_req connA [0, 0])])) addrA addrB =
     [(netA_reading, Some (NewUDPConn_conn addrA addrB), Some EADDRNOTAVAIL)]"
proof -
  have h: "\<not> net_closed NewNetwork \<and> loop_running NewNetwork \<and> udp NewNetwork addrA = None \<and>
    (\<forall>d. DeleteConnUDP d \<in> set [ReadUDP (commonRead_req connA [0, 0])] \<longrightarrow> dc_localAddr d \<noteq> addrA)"
    by (simp add: NewNetwork_def)
  have a: "NewUDPConn NewNetwork addrA zeroAddrPort = [(netA_bound, Some connA, None)]"
    by (simp add: NewUDPConn_open NewNetwork_def netA_bound_eq onNewConnUDP_def
        NewUDPConn_req_def connA_def)
  have b: "fst (loop netA_bound [ReadUDP (commonRead_req connA [0, 0])]) = netA_reading"
    by (simp add: netA_bound_eq netA_reading_eq onReadUDP_def commonRead_req_def connA_def
        NewUDPConn_conn_def)
  from bind_creates_or_is_refused [of NewNetwork "NewUDPConn_req addrA" addrA
      "[ReadUDP (commonRead_req connA [0, 0])]" zeroAddrPort addrB] h a b
  show ?thesis by (auto simp del: loop.simps)
qed

text \<open>
  C6 as stated asks for the error "address in use" (\<^verbatim>\<open>EADDRINUSE\<close>). The second bind of
  \<open>addrA\<close> reports \<^verbatim>\<open>EADDRNOTAVAIL\<close>, which is another errno.
\<close>

theorem second_bind_is_not_EADDRINUSE:
  "NewUDPConn NewNetwork addrA zeroAddrPort = [(netA_bound, Some connA, None)] \<and>
   NewUDPConn netA_bound addrA zeroAddrPort = [(netA_bound, Some connA, Some EADDRNOTAVAIL)] \<and>
   snd (snd (hd (NewUDPConn netA_bound addrA zeroAddrPort))) \<noteq> Some EADDRINUSE"
  by (simp add: NewUDPConn_open NewNetwork_def netA_bound_eq onNewConnUDP_def
        NewUDPConn_req_def connA_def)

theorem failed_request_leaves_network_witness:
  "nc_err (snd (onNewConnUDP netA_reading (NewUDPConn_req addrA))) = Some EADDRNOTAVAIL \<and>
   fst (onNewConnUDP netA_reading (NewUDPConn_req addrA)) = netA_reading \<and>
   onReadUDP netA_reading (commonRead_req connB [0]) =
     (netA_reading, [AckReadUDP ((commonRead_req connB [0])\<lparr>r_err := Some EBADF, r_ack := True\<rparr>)]) \<and>
   dc_err (snd (onDeleteConnUDP netA_reading (UDPConn_Close_req connB))) = Some EBADF \<and>
   fst (onDeleteConnUDP netA_reading (UDPConn_Close_req connB)) = netA_reading"
proof -
  let ?r = "(commonRead_req connB [0])\<lparr>r_err := Some EBADF, r_ack := True\<rparr>"
  have a: "nc_err (NewUDPConn_req addrA) = None \<and>
      nc_err (snd (onNewConnUDP netA_reading (NewUDPConn_req addrA))) \<noteq> None"
    by (simp add: netA_reading_eq onNewConnUDP_def NewUDPConn_req_def)
  have b: "r_err (commonRead_req connB [0]) = None \<and>
      AckReadUDP ?r \<in> set (snd (onReadUDP netA_reading (commonRead_req connB [0]))) \<and> r_err ?r \<noteq> None"
    by (simp add: netA_reading_eq onReadUDP_def commonRead_req_def connB_def NewUDPConn_conn_def
        addrA_def addrB_def)
  have c: "dc_err (UDPConn_Close_req connB) = None \<and>
      dc_err (snd (onDeleteConnUDP netA_reading (UDPConn_Close_req connB))) \<noteq> None"
    by (simp add: netA_reading_eq onDeleteConnUDP_def UDPConn_Close_req_def connB_def
        NewUDPConn_conn_def addrA_def addrB_def)
  from failed_request_leaves_network [of "NewUDPConn_req addrA" netA_reading
      "commonRead_req connB [0]" ?r "UDPConn_Close_req connB"] a b c
  show ?thesis by simp
qed

lemma finishReadWrite_eq:
  "finishReadWrite read write =
     [AckWriteUDP (write\<lparr>w_ack := True\<rparr>),
      AckReadUDP (read\<lparr>
        r_buffer := take (min (length (r_buffer read)) (length (w_payload write))) (w_payload write) @
                    drop (min (length (r_buffer read)) (length (w_payload write))) (r_buffer read),
        r_count := int (min (length (r_buffer read)) (length (w_payload write))),
        r_senderAddr := w_sourceAddr write,
        r_ack := True\<rparr>)]"
  by (simp add: finishReadWrite_def go_copy_def Let_def)

subsection \<open>Matching a send with a receive\<close>

text \<open>
  C3: when a send is matched with a receive, \<open>min (len payload) (len buffer)\<close> bytes of
  the payload are copied to the front of the receiver's buffer, the sender's address is
  recorded, and both requests are acknowledged with the error they were issued with (none,
  as the handle builds them). In particular, on a new network: bind \<open>A\<close> and \<open>B\<close>,
  \<^verbatim>\<open>WriteTo\<close> from \<open>A\<close> to \<open>B\<close> with payload \<open>P\<close>, then \<^verbatim>\<open>ReadFrom\<close> at \<open>B\<close>
  with buffer \<open>buf\<close>. The write returns \<open>len P\<close> and no error. If \<open>buf\<close> is at
  least as long as \<open>P\<close> the read returns \<open>(len P, A)\<close> and the buffer starts with
  \<open>P\<close>; if it is shorter the read returns \<open>(len buf, A)\<close> and the buffer holds the
  prefix of \<open>P\<close> of that length; no request stays queued at \<open>B\<close>, so the rest of
  \<open>P\<close> is lost.
  The handles have no deadline set and nothing is closed.
\<close>

theorem round_trip:
  fixes A B :: AddrPort and P buf :: "byte list"
  defines "a \<equiv> NewUDPConn_conn A zeroAddrPort"
    and "b \<equiv> NewUDPConn_conn B zeroAddrPort"
    and "k \<equiv> min (length buf) (length P)"
  shows "finishReadWrite rreq wreq =
     [AckWriteUDP (wreq\<lparr>w_ack := True\<rparr>),
      AckReadUDP (rreq\<lparr>
        r_buffer := take (min (length (r_buffer rreq)) (length (w_payload wreq))) (w_payload wreq) @
                    drop (min (length (r_buffer rreq)) (length (w_payload wreq))) (r_buffer rreq),
        r_count := int (min (length (r_buffer rreq)) (length (w_payload wreq))),
        r_senderAddr := w_sourceAddr wreq,
        r_ack := True\<rparr>)] \<and>
    (\<exists>n acks w r.
       loop NewNetwork
         [NewConnUDP (NewUDPConn_req A), NewConnUDP (NewUDPConn_req B),
          WriteUDP (WriteTo_req a P B), ReadUDP (commonRead_req b buf)] =
         (n, acks @ [AckWriteUDP w, AckReadUDP r]) \<and>
       commonWrite_ack a n now P w = [(int (length P), None)] \<and>
       ReadFrom b (commonRead_ack b n now r) = [(int k, Some A, None)] \<and>
       r_buffer r = take k P @ drop k buf \<and>
       udp n B = Some \<lparr>blockedReads = [], blockedWrites = []\<rparr> \<and>
       (if length P \<le> length buf
        then k = length P \<and> take (length P) (r_buffer r) = P
        else k = length buf \<and> r_buffer r = take (length buf) P))"
proof (intro conjI)
  show "finishReadWrite rreq wreq =
     [AckWriteUDP (wreq\<lparr>w_ack := True\<rparr>),
      AckReadUDP (rreq\<lparr>
        r_buffer := take (min (length (r_buffer rreq)) (length (w_payload wreq))) (w_payload wreq) @
                    drop (min (length (r_buffer rreq)) (length (w_payload wreq))) (r_buffer rreq),
        r_count := int (min (length (r_buffer rreq)) (length (w_payload wreq))),
        r_senderAddr := w_sourceAddr wreq,
        r_ack := True\<rparr>)]"
    by (rule finishReadWrite_eq)
next
  define empty_st where "empty_st = \<lparr>blockedReads = [], blockedWrites = []\<rparr>"
  define wq where "wq = WriteTo_req a P B"
  define rq where "rq = commonRead_req b buf"
  define n1 where "n1 = fst (onNewConnUDP NewNetwork (NewUDPConn_req A))"
  define n2 where "n2 = fst (onNewConnUDP n1 (NewUDPConn_req B))"
  define n3 where "n3 = n2\<lparr>udp := (udp n2)(B \<mapsto> empty_st\<lparr>blockedWrites := [wq]\<rparr>)\<rparr>"
  define n4 where "n4 = n3\<lparr>udp := (udp n3)(B \<mapsto> empty_st)\<rparr>"
  define acks where "acks = [AckNewConnUDP (snd (onNewConnUDP NewNetwork (NewUDPConn_req A))),
     AckNewConnUDP (snd (onNewConnUDP n1 (NewUDPConn_req B)))]"
  define w where "w = wq\<lparr>w_ack := True\<rparr>"
  define r where "r = rq\<lparr>r_buffer := take k P @ drop k buf, r_count := int k,
     r_senderAddr := A, r_ack := True\<rparr>"
  have open1: "\<not> net_closed n1"
    by (simp add: n1_def onNewConnUDP_def NewNetwork_def)
  have open2: "\<not> net_closed n2"
    using open1 by (simp add: n2_def onNewConnUDP_def)
  have bound2: "udp n2 B = Some empty_st"
    by (simp add: n2_def n1_def onNewConnUDP_def NewNetwork_def NewUDPConn_req_def empty_st_def)
  have d3: "dispatch n2 (WriteUDP wq) = (n3, [])"
    using bound2
    by (simp add: onWriteUDP_def wq_def WriteTo_req_def commonWrite_req_def n3_def empty_st_def)
  have open3: "\<not> net_closed n3"
    using open2 by (simp add: n3_def)
  have d4: "dispatch n3 (ReadUDP rq) = (n4, [AckWriteUDP w, AckReadUDP r])"
    by (simp add: onReadUDP_def rq_def commonRead_req_def b_def NewUDPConn_conn_def n3_def
        n4_def empty_st_def finishReadWrite_eq wq_def WriteTo_req_def commonWrite_req_def
        a_def w_def r_def k_def)
  have open4: "\<not> net_closed n4"
    using open3 by (simp add: n4_def)
  have run: "loop NewNetwork
         [NewConnUDP (NewUDPConn_req A), NewConnUDP (NewUDPConn_req B),
          WriteUDP (WriteTo_req a P B), ReadUDP (commonRead_req b buf)] =
         (n4, acks @ [AckWriteUDP w, AckReadUDP r])"
  proof -
    have l4: "loop n3 [ReadUDP rq] = (n4, [AckWriteUDP w, AckReadUDP r])"
      using open3 open4 d4 by (simp add: loop_open_Cons del: dispatch.simps)
    have l3: "loop n2 [WriteUDP wq, ReadUDP rq] = (n4, [AckWriteUDP w, AckReadUDP r])"
      using open2 d3 l4 by (simp add: loop_open_Cons del: dispatch.simps loop.simps)
    have l2: "loop n1 [NewConnUDP (NewUDPConn_req B), WriteUDP wq, ReadUDP rq] =
        (n4, AckNewConnUDP (snd (onNewConnUDP n1 (NewUDPConn_req B))) # [AckWriteUDP w, AckReadUDP r])"
      using open1 l3 by (simp add: loop_open_Cons n2_def split_beta del: loop.simps)
    have "\<not> net_closed NewNetwork" by (simp add: NewNetwork_def)
    then have "loop NewNetwork [NewConnUDP (NewUDPConn_req A), NewConnUDP (NewUDPConn_req B),
          WriteUDP wq, ReadUDP rq] = (n4, acks @ [AckWriteUDP w, AckReadUDP r])"
      using l2 by (simp add: loop_open_Cons n1_def split_beta acks_def del: loop.simps)
    then show ?thesis by (simp only: wq_def rq_def)
  qed
  have wr: "commonWrite_ack a n4 now P w = [(int (length P), None)]"
    using open4
    by (simp add: commonWrite_ack_def go_select_def a_def NewUDPConn_conn_def wait_ready_def
        makePipeDeadline_def w_def wq_def WriteTo_req_def commonWrite_req_def)
  have rd: "ReadFrom b (commonRead_ack b n4 now r) = [(int k, Some A, None)]"
    using open4
    by (simp add: ReadFrom_def ReadFrom_after_def commonRead_ack_def go_select_def b_def
        NewUDPConn_conn_def wait_ready_def makePipeDeadline_def r_def rq_def commonRead_req_def
        IsValid_def zeroAddrPort_def)
  have buf: "r_buffer r = take k P @ drop k buf"
    by (simp add: r_def)
  have cases: "if length P \<le> length buf
        then k = length P \<and> take (length P) (r_buffer r) = P
        else k = length buf \<and> r_buffer r = take (length buf) P"
    by (simp add: r_def k_def min_def)
  have left: "udp n4 B = Some \<lparr>blockedReads = [], blockedWrites = []\<rparr>"
    by (simp add: n4_def empty_st_def)
  from run wr rd buf left cases
  show "\<exists>n acks w r.
       loop NewNetwork
         [NewConnUDP (NewUDPConn_req A), NewConnUDP (NewUDPConn_req B),
          WriteUDP (WriteTo_req a P B), ReadUDP (commonRead_req b buf)] =
         (n, acks @ [AckWriteUDP w, AckReadUDP r]) \<and>
       commonWrite_ack a n now P w = [(int (length P), None)] \<and>
       ReadFrom b (commonRead_ack b n now r) = [(int k, Some A, None)] \<and>
       r_buffer r = take k P @ drop k buf \<and>
       udp n B = Some \<lparr>blockedReads = [], blockedWrites = []\<rparr> \<and>
       (if length P \<le> length buf
        then k = length P \<and> take (length P) (r_buffer r) = P
        else k = length buf \<and> r_buffer r = take (length buf) P)"
    by blast
qed

theorem round_trip_witness:
  "\<exists>n acks w r.
     loop NewNetwork
       [NewConnUDP (NewUDPConn_req addrA), NewConnUDP (NewUDPConn_req addrB),
        WriteUDP (WriteTo_req connA [1, 2, 3] addrB), ReadUDP (commonRead_req connB [0, 0])] =
       (n, acks @ [AckWriteUDP w, AckReadUDP r]) \<and>
     commonWrite_ack connA n 0 [1, 2, 3] w = [(3, None)] \<and>
     ReadFrom connB (commonRead_ack connB n 0 r) = [(2, Some addrA, None)] \<and>
     r_buffer r = [1, 2] \<and>
     udp n addrB = Some \<lparr>blockedReads = [], blockedWrites = []\<rparr>"
  using round_trip [where A = addrA and B = addrB and P = "[1, 2, 3]" and buf = "[0, 0]" and now = 0
      and rreq = "commonRead_req connB [0, 0]" and wreq = "WriteTo_req connA [1, 2, 3] addrB"]
  by (simp add: connA_def connB_def del: loop.simps) blast

lemma dispatch_other_address:
  "\<not> touches addr req \<Longrightarrow> udp (fst (dispatch n req)) addr = udp n addr"
  by (cases req)
     (auto simp add: touches_def onNewConnUDP_def onReadUDP_def onWriteUDP_def
        onDeleteConnUDP_def split: option.splits)

lemma loop_other_address:
  "list_all (\<lambda>req. \<not> touches addr req) reqs \<Longrightarrow> udp (fst (loop n reqs)) addr = udp n addr"
proof (induction reqs arbitrary: n)
  case Nil
  then show ?case by simp
next
  case (Cons req reqs)
  then show ?case
    by (simp add: split_beta dispatch_other_address)
qed

lemma fst_loop_append: "fst (loop n (xs @ ys)) = fst (loop (fst (loop n xs)) ys)"
proof (induction xs arbitrary: n)
  case Nil
  show ?case by (cases ys) simp_all
next
  case (Cons x xs)
  show ?case
  proof (cases "net_closed n")
    case True
    then show ?thesis by (cases ys) simp_all
  next
    case False
    then show ?thesis using Cons.IH by (simp add: split_beta)
  qed
qed

lemma fst_loop_Cons: "\<not> net_closed n \<Longrightarrow> fst (loop n (x # xs)) = fst (loop (fst (dispatch n x)) xs)"
  by (simp add: split_beta)

subsection \<open>First in, first out\<close>

text \<open>
  C4: matching at one address is first in, first out. Let \<open>addr\<close> be bound with both
  queues empty on a running network. If the sends \<open>w1\<close> and then \<open>w2\<close> to \<open>addr\<close>
  reach the actor and then the receives \<open>r1\<close> and \<open>r2\<close> at \<open>addr\<close>, with any
  requests that do not act on \<open>addr\<close> in between, then the step that handles
  \<open>r1\<close> resolves it with the payload of \<open>w1\<close> and the step that handles \<open>r2\<close>
  resolves it with the payload of \<open>w2\<close>. With nothing in between, the acknowledgements
  of the four requests are those of the pair \<open>(r1, w1)\<close> followed by those of
  \<open>(r2, w2)\<close>.
\<close>

theorem fifo_per_address:
  assumes opn: "\<not> net_closed n"
    and fresh: "udp n addr = Some \<lparr>blockedReads = [], blockedWrites = []\<rparr>"
    and w1: "w_destAddr w1 = addr" and w2: "w_destAddr w2 = addr"
    and r1: "r_localAddr r1 = addr" and r2: "r_localAddr r2 = addr"
    and xs: "list_all (\<lambda>req. \<not> touches addr req) xs"
    and ys: "list_all (\<lambda>req. \<not> touches addr req) ys"
    and zs: "list_all (\<lambda>req. \<not> touches addr req) zs"
  shows "snd (dispatch (fst (loop n (WriteUDP w1 # xs @ WriteUDP w2 # ys))) (ReadUDP r1)) =
           finishReadWrite r1 w1 \<and>
         snd (dispatch (fst (loop n (WriteUDP w1 # xs @ WriteUDP w2 # ys @ ReadUDP r1 # zs)))
                (ReadUDP r2)) =
           finishReadWrite r2 w2 \<and>
         snd (loop n [WriteUDP w1, WriteUDP w2, ReadUDP r1, ReadUDP r2]) =
           finishReadWrite r1 w1 @ finishReadWrite r2 w2"
proof -
  define st where "st = (\<lambda>ws. \<lparr>blockedReads = [] :: networkReadUDP list, blockedWrites = ws\<rparr>)"
  have step_w: "udp (fst (dispatch m (WriteUDP w))) addr = Some (st (ws @ [w]))"
      and "snd (dispatch m (WriteUDP w)) = []"
    if "udp m addr = Some (st ws)" "w_destAddr w = addr" for m w ws
    using that by (simp_all add: onWriteUDP_def st_def)
  note step_w_acks = this(2)
  have step_r: "udp (fst (dispatch m (ReadUDP r))) addr = Some (st ws)"
      and "snd (dispatch m (ReadUDP r)) = finishReadWrite r w"
    if "udp m addr = Some (st (w # ws))" "r_localAddr r = addr" for m r w ws
    using that by (simp_all add: onReadUDP_def st_def)
  note step_r_acks = this(2)
  have quiet: "udp (fst (loop m reqs)) addr = udp m addr"
    if "list_all (\<lambda>req. \<not> touches addr req) reqs" for m reqs
    using that by (rule loop_other_address)
  define na where "na = fst (dispatch n (WriteUDP w1))"
  define nb where "nb = fst (loop na xs)"
  define nc where "nc = fst (dispatch nb (WriteUDP w2))"
  define nd where "nd = fst (loop nc ys)"
  define ne where "ne = fst (dispatch nd (ReadUDP r1))"
  define nf where "nf = fst (loop ne zs)"
  have sa: "udp na addr = Some (st [w1])"
    using step_w [of n "[]" w1] fresh w1 by (simp add: na_def st_def)
  have sb: "udp nb addr = Some (st [w1])"
    using quiet [OF xs] sa by (simp add: nb_def)
  have sc: "udp nc addr = Some (st [w1, w2])"
    using step_w [of nb "[w1]" w2] sb w2 by (simp add: nc_def)
  have sd: "udp nd addr = Some (st [w1, w2])"
    using quiet [OF ys] sc by (simp add: nd_def)
  have se: "udp ne addr = Some (st [w2])"
    using step_r [of nd w1 "[w2]" r1] sd r1 by (simp add: ne_def)
  have sf: "udp nf addr = Some (st [w2])"
    using quiet [OF zs] se by (simp add: nf_def)
  have oa: "\<not> net_closed na" using opn by (simp add: na_def dispatch_net_closed del: dispatch.simps)
  have ob: "\<not> net_closed nb" using oa by (simp add: nb_def loop_net_closed)
  have oc: "\<not> net_closed nc" using ob by (simp add: nc_def dispatch_net_closed del: dispatch.simps)
  have od: "\<not> net_closed nd" using oc by (simp add: nd_def loop_net_closed)
  have oe: "\<not> net_closed ne" using od by (simp add: ne_def dispatch_net_closed del: dispatch.simps)
  have run_d: "fst (loop n (WriteUDP w1 # xs @ WriteUDP w2 # ys)) = nd"
    using opn ob
    by (simp add: fst_loop_Cons fst_loop_append na_def nb_def nc_def nd_def del: loop.simps dispatch.simps)
  have run_f: "fst (loop n (WriteUDP w1 # xs @ WriteUDP w2 # ys @ ReadUDP r1 # zs)) = nf"
    using opn ob od
    by (simp add: fst_loop_Cons fst_loop_append na_def nb_def nc_def nd_def ne_def nf_def
        del: loop.simps dispatch.simps)
  have first: "snd (dispatch nd (ReadUDP r1)) = finishReadWrite r1 w1"
    using step_r_acks [of nd w1 "[w2]" r1] sd r1 by simp
  have second: "snd (dispatch nf (ReadUDP r2)) = finishReadWrite r2 w2"
    using step_r_acks [of nf w2 "[]" r2] sf r2 by simp
  have plain: "snd (loop n [WriteUDP w1, WriteUDP w2, ReadUDP r1, ReadUDP r2]) =
           finishReadWrite r1 w1 @ finishReadWrite r2 w2"
  proof -
    define mc where "mc = fst (dispatch na (WriteUDP w2))"
    define me where "me = fst (dispatch mc (ReadUDP r1))"
    have tc: "udp mc addr = Some (st [w1, w2])"
      using step_w [of na "[w1]" w2] sa w2 by (simp add: mc_def)
    have te: "udp me addr = Some (st [w2])"
      using step_r [of mc w1 "[w2]" r1] tc r1 by (simp add: me_def)
    have pc: "\<not> net_closed mc"
      using oa by (simp add: mc_def dispatch_net_closed del: dispatch.simps)
    have pe: "\<not> net_closed me"
      using pc by (simp add: me_def dispatch_net_closed del: dispatch.simps)
    have pf: "\<not> net_closed (fst (dispatch me (ReadUDP r2)))"
      using pe by (simp add: dispatch_net_closed del: dispatch.simps)
    have a1: "snd (dispatch n (WriteUDP w1)) = []"
      using step_w_acks [of n "[]" w1] fresh w1 by (simp add: st_def)
    have a2: "snd (dispatch na (WriteUDP w2)) = []"
      using step_w_acks [of na "[w1]" w2] sa w2 by simp
    have a3: "snd (dispatch mc (ReadUDP r1)) = finishReadWrite r1 w1"
      using step_r_acks [of mc w1 "[w2]" r1] tc r1 by simp
    have a4: "snd (dispatch me (ReadUDP r2)) = finishReadWrite r2 w2"
      using step_r_acks [of me w2 "[]" r2] te r2 by simp
    have l4: "snd (loop me [ReadUDP r2]) = finishReadWrite r2 w2"
      using pe pf a4 by (simp add: split_beta del: dispatch.simps)
    have l3: "snd (loop mc [ReadUDP r1, ReadUDP r2]) = finishReadWrite r1 w1 @ finishReadWrite r2 w2"
      using pc a3 l4 by (simp add: loop_open_Cons me_def del: dispatch.simps loop.simps)
    have l2: "snd (loop na [WriteUDP w2, ReadUDP r1, ReadUDP r2]) =
        finishReadWrite r1 w1 @ finishReadWrite r2 w2"
      using oa a2 l3 by (simp add: loop_open_Cons mc_def del: dispatch.simps loop.simps)
    show ?thesis
      using opn a1 l2 by (simp add: loop_open_Cons na_def del: dispatch.simps loop.simps)
  qed
  from first second plain run_d run_f show ?thesis by simp
qed

theorem fifo_per_address_witness:
  "snd (dispatch
         (fst (loop netA_bound
                 (WriteUDP (WriteTo_req connB [1] addrA) # [NewConnUDP (NewUDPConn_req addrB)] @
                  WriteUDP (WriteTo_req connB [2] addrA) # [])))
         (ReadUDP (commonRead_req connA [0]))) =
     [AckWriteUDP ((WriteTo_req connB [1] addrA)\<lparr>w_ack := True\<rparr>),
      AckReadUDP ((commonRead_req connA [0])\<lparr>r_buffer := [1], r_count := 1,
         r_senderAddr := addrB, r_ack := True\<rparr>)] \<and>
   snd (dispatch
         (fst (loop netA_bound
                 (WriteUDP (WriteTo_req connB [1] addrA) # [NewConnUDP (NewUDPConn_req addrB)] @
                  WriteUDP (WriteTo_req connB [2] addrA) # [] @
                  ReadUDP (commonRead_req connA [0]) # [ReadUDP (commonRead_req connB [0])])))
         (ReadUDP (commonRead_req connA [0, 0]))) =
     [AckWriteUDP ((WriteTo_req connB [2] addrA)\<lparr>w_ack := True\<rparr>),
      AckReadUDP ((commonRead_req connA [0, 0])\<lparr>r_buffer := [2, 0], r_count := 1,
         r_senderAddr := addrB, r_ack := True\<rparr>)]"
proof -
  have h: "\<not> net_closed netA_bound"
    "udp netA_bound addrA = Some \<lparr>blockedReads = [], blockedWrites = []\<rparr>"
    "w_destAddr (WriteTo_req connB [1] addrA) = addrA"
    "w_destAddr (WriteTo_req connB [2] addrA) = addrA"
    "r_localAddr (commonRead_req connA [0]) = addrA"
    "r_localAddr (commonRead_req connA [0, 0]) = addrA"
    by (simp_all add: netA_bound_eq WriteTo_req_def commonWrite_req_def commonRead_req_def
        connA_def NewUDPConn_conn_def)
  have q: "list_all (\<lambda>req. \<not> touches addrA req) [NewConnUDP (NewUDPConn_req addrB)]"
    "list_all (\<lambda>req. \<not> touches addrA req) []"
    "list_all (\<lambda>req. \<not> touches addrA req) [ReadUDP (commonRead_req connB [0])]"
    by (simp_all add: touches_def NewUDPConn_req_def commonRead_req_def connB_def
        NewUDPConn_conn_def addrA_def addrB_def)
  have f1: "finishReadWrite (commonRead_req connA [0]) (WriteTo_req connB [1] addrA) =
     [AckWriteUDP ((WriteTo_req connB [1] addrA)\<lparr>w_ack := True\<rparr>),
      AckReadUDP ((commonRead_req connA [0])\<lparr>r_buffer := [1], r_count := 1,
         r_senderAddr := addrB, r_ack := True\<rparr>)]"
    by (simp add: finishReadWrite_eq WriteTo_req_def commonWrite_req_def commonRead_req_def
        connB_def NewUDPConn_conn_def)
  have f2: "finishReadWrite (commonRead_req connA [0, 0]) (WriteTo_req connB [2] addrA) =
     [AckWriteUDP ((WriteTo_req connB [2] addrA)\<lparr>w_ack := True\<rparr>),
      AckReadUDP ((commonRead_req connA [0, 0])\<lparr>r_buffer := [2, 0], r_count := 1,
         r_senderAddr := addrB, r_ack := True\<rparr>)]"
    by (simp add: finishReadWrite_eq WriteTo_req_def commonWrite_req_def commonRead_req_def
        connB_def NewUDPConn_conn_def)
  from fifo_per_address [OF h q] f1 f2 show ?thesis
    by (simp only:)
qed

lemma netA_closed_eq:
  "netA_closed = \<lparr>net_closed = True, net_once = True,
      udp = [addrA \<mapsto> \<lparr>blockedReads = [], blockedWrites = []\<rparr>], loop_running = True\<rparr>"
  by (simp add: netA_closed_def netA_bound_eq Network_Close_def)

lemma netAB_bound_eq:
  "netAB_bound = \<lparr>net_closed = False, net_once = False,
      udp = [addrA \<mapsto> \<lparr>blockedReads = [], blockedWrites = []\<rparr>,
             addrB \<mapsto> \<lparr>blockedReads = [], blockedWrites = []\<rparr>], loop_running = True\<rparr>"
  by (simp add: netAB_bound_def NewNetwork_def NewUDPConn_req_def onNewConnUDP_def
      addrA_def addrB_def)

subsection \<open>Unbinding\<close>

text \<open>
  C8, as amended: an unbind of an address with no entry fails with \<^verbatim>\<open>EBADF\<close> and
  changes nothing; an unbind of an address with an entry removes the entry, and the only
  acknowledgement of the step is the one of the unbind itself, so no request parked in the
  queues of that address is resolved or woken. The parked requests are dropped together
  with the entry: the network after the unbind is the same whatever was parked there, so
  no later step of the actor can match or resolve them, and binding the address again
  starts from two empty queues.
\<close>

theorem unbind_removes_and_forgets:
  "(udp n (dc_localAddr req) = None \<longrightarrow>
      dispatch n (DeleteConnUDP req) =
        (n, [AckDeleteConnUDP (req\<lparr>dc_err := Some EBADF, dc_ack := True\<rparr>)])) \<and>
   (udp n (dc_localAddr req) \<noteq> None \<longrightarrow>
      dispatch n (DeleteConnUDP req) =
        (n\<lparr>udp := (udp n)(dc_localAddr req := None)\<rparr>,
         [AckDeleteConnUDP (req\<lparr>dc_ack := True\<rparr>)])) \<and>
   fst (dispatch (n\<lparr>udp := (udp n)(dc_localAddr req \<mapsto> st)\<rparr>) (DeleteConnUDP req)) =
     n\<lparr>udp := (udp n)(dc_localAddr req := None)\<rparr> \<and>
   (\<not> net_closed n \<and> nc_localAddr bind = dc_localAddr req \<longrightarrow>
      udp (fst (loop (n\<lparr>udp := (udp n)(dc_localAddr req \<mapsto> st)\<rparr>)
                  [DeleteConnUDP req, NewConnUDP bind])) (dc_localAddr req) =
        Some \<lparr>blockedReads = [], blockedWrites = []\<rparr>)"
  by (simp add: onDeleteConnUDP_def onNewConnUDP_def)

theorem unbind_removes_and_forgets_witness:
  "udp netA_reading addrA =
     Some \<lparr>blockedReads = [commonRead_req connA [0, 0]], blockedWrites = []\<rparr> \<and>
   dispatch netA_reading (DeleteConnUDP (UDPConn_Close_req connA)) =
     (NewNetwork, [AckDeleteConnUDP ((UDPConn_Close_req connA)\<lparr>dc_ack := True\<rparr>)]) \<and>
   dispatch NewNetwork (DeleteConnUDP (UDPConn_Close_req connA)) =
     (NewNetwork, [AckDeleteConnUDP ((UDPConn_Close_req connA)\<lparr>dc_err := Some EBADF, dc_ack := True\<rparr>)])"
proof -
  have a: "udp netA_reading (dc_localAddr (UDPConn_Close_req connA)) \<noteq> None"
    by (simp add: netA_reading_eq UDPConn_Close_req_def connA_def NewUDPConn_conn_def)
  have b: "udp NewNetwork (dc_localAddr (UDPConn_Close_req connA)) = None"
    by (simp add: NewNetwork_def)
  have c: "netA_reading\<lparr>udp := (udp netA_reading)(dc_localAddr (UDPConn_Close_req connA) := None)\<rparr> =
      NewNetwork"
    by (simp add: netA_reading_eq NewNetwork_def UDPConn_Close_req_def connA_def NewUDPConn_conn_def)
  have d: "udp netA_reading addrA =
     Some \<lparr>blockedReads = [commonRead_req connA [0, 0]], blockedWrites = []\<rparr>"
    by (simp add: netA_reading_eq)
  from unbind_removes_and_forgets [of netA_reading "UDPConn_Close_req connA"]
    unbind_removes_and_forgets [of NewNetwork "UDPConn_Close_req connA"] a b c d
  show ?thesis by (simp del: dispatch.simps)
qed

text \<open>
  C8 as stated says that the parked requests stay referenced until they are matched
  later or the network shuts down. Here a receive is parked at \<open>addrA\<close>; after the
  unbind the address map is empty, so the actor holds no reference to the receive, and
  after a new bind of \<open>addrA\<close> a send to it is parked instead of being matched with
  that receive. The network is still running.
\<close>

theorem parked_read_is_dropped_by_unbind:
  "udp netA_reading addrA =
     Some \<lparr>blockedReads = [commonRead_req connA [0, 0]], blockedWrites = []\<rparr> \<and>
   loop netA_reading
     [DeleteConnUDP (UDPConn_Close_req connA),
      NewConnUDP (NewUDPConn_req addrA),
      WriteUDP (WriteTo_req connB [1, 2, 3] addrA)] =
     (NewNetwork\<lparr>udp := [addrA \<mapsto>
         \<lparr>blockedReads = [], blockedWrites = [WriteTo_req connB [1, 2, 3] addrA]\<rparr>]\<rparr>,
      [AckDeleteConnUDP ((UDPConn_Close_req connA)\<lparr>dc_ack := True\<rparr>),
       AckNewConnUDP ((NewUDPConn_req addrA)\<lparr>nc_ack := True\<rparr>)]) \<and>
   udp (fst (dispatch netA_reading (DeleteConnUDP (UDPConn_Close_req connA)))) = Map.empty"
  by (simp add: netA_reading_eq NewNetwork_def UDPConn_Close_req_def connA_def NewUDPConn_conn_def
      onDeleteConnUDP_def onNewConnUDP_def onWriteUDP_def NewUDPConn_req_def WriteTo_req_def
      commonWrite_req_def)

subsection \<open>Shutdown\<close>

text \<open>
  In a network that \<^verbatim>\<open>NewNetwork\<close> has made, the \<^verbatim>\<open>sync.Once\<close> has run only if
  \<^verbatim>\<open>closed\<close> is closed. Every operation keeps this.
\<close>

lemma NewNetwork_once: "net_once NewNetwork \<longrightarrow> net_closed NewNetwork"
  by (simp add: NewNetwork_def)

lemma dispatch_once: "net_once (fst (dispatch n req)) = net_once n"
  by (cases req)
     (simp_all add: onNewConnUDP_def onReadUDP_def onWriteUDP_def onDeleteConnUDP_def
        split_beta split: option.splits)

lemma loop_once: "net_once (fst (loop n reqs)) = net_once n"
  by (induction reqs arbitrary: n) (simp_all add: split_beta dispatch_once)

lemma Network_Close_closes:
  "(net_once n \<longrightarrow> net_closed n) \<Longrightarrow> net_closed (fst (Network_Close n))"
  by (simp add: Network_Close_def)

lemma loop_Network_Close_closed:
  "net_closed (fst (Network_Close (fst (loop NewNetwork reqs))))"
  by (rule Network_Close_closes)
     (simp add: loop_once loop_net_closed NewNetwork_def)

text \<open>
  C7, as amended: \<^verbatim>\<open>Network.Close\<close> is idempotent: a second call changes nothing, and
  every call returns no error. A call leaves \<^verbatim>\<open>closed\<close> closed (in a network whose
  \<^verbatim>\<open>sync.Once\<close> has run only if \<^verbatim>\<open>closed\<close> is closed, as in every network made by
  \<^verbatim>\<open>NewNetwork\<close>), and the loop, when it runs again, returns without handling a
  request. From then on no request reaches the actor: a bind fails with \<^verbatim>\<open>ErrClosed\<close>; a
  receive and a send return an error without being handed to the actor, which is
  \<^verbatim>\<open>ErrClosed\<close> or, when a deadline has expired, possibly \<^verbatim>\<open>ErrDeadlineExceeded\<close>,
  and is \<^verbatim>\<open>ErrClosed\<close> when no deadline of the handle has expired; the unbind that the
  first \<^verbatim>\<open>Close\<close> of a handle issues is skipped, the network keeps the entry, and
  \<^verbatim>\<open>Close\<close> returns no error.
\<close>

theorem shutdown_is_idempotent_and_final:
  "Network_Close (fst (Network_Close n)) = (fst (Network_Close n), None) \<and>
   snd (Network_Close n) = None \<and>
   ((net_once n \<longrightarrow> net_closed n) \<longrightarrow> net_closed (fst (Network_Close n))) \<and>
   net_closed (fst (Network_Close (fst (loop NewNetwork reqs)))) \<and>
   (net_closed n \<longrightarrow>
      loop n [] = (n\<lparr>loop_running := False\<rparr>, []) \<and>
      NewUDPConn n la pa = [(n, None, Some ErrClosed)] \<and>
      commonRead_issue c n now \<noteq> [] \<and>
      set (commonRead_issue c n now) \<subseteq>
        {Return (0, zeroAddrPort, Some ErrClosed), Return (0, zeroAddrPort, Some ErrDeadlineExceeded)} \<and>
      (\<not> wait_ready (readDeadline c) now \<longrightarrow>
         set (commonRead_issue c n now) = {Return (0, zeroAddrPort, Some ErrClosed)}) \<and>
      commonWrite_issue c n now \<noteq> [] \<and>
      set (commonWrite_issue c n now) \<subseteq>
        {Return (0, Some ErrClosed), Return (0, Some ErrDeadlineExceeded)} \<and>
      (\<not> wait_ready (readDeadline c) now \<and> \<not> wait_ready (writeDeadline c) now \<longrightarrow>
         set (commonWrite_issue c n now) = {Return (0, Some ErrClosed)}) \<and>
      (\<not> conn_once c \<longrightarrow>
         UDPConn_Close c n = [(c\<lparr>conn_once := True, conn_closed := True\<rparr>, n, None)]))"
proof (intro conjI)
  show "Network_Close (fst (Network_Close n)) = (fst (Network_Close n), None)"
    by (simp add: Network_Close_def)
  show "snd (Network_Close n) = None"
    by (simp add: Network_Close_def)
  show "(net_once n \<longrightarrow> net_closed n) \<longrightarrow> net_closed (fst (Network_Close n))"
    by (simp add: Network_Close_def)
  show "net_closed (fst (Network_Close (fst (loop NewNetwork reqs))))"
    by (rule loop_Network_Close_closed)
  show "net_closed n \<longrightarrow>
      loop n [] = (n\<lparr>loop_running := False\<rparr>, []) \<and>
      NewUDPConn n la pa = [(n, None, Some ErrClosed)] \<and>
      commonRead_issue c n now \<noteq> [] \<and>
      set (commonRead_issue c n now) \<subseteq>
        {Return (0, zeroAddrPort, Some ErrClosed), Return (0, zeroAddrPort, Some ErrDeadlineExceeded)} \<and>
      (\<not> wait_ready (readDeadline c) now \<longrightarrow>
         set (commonRead_issue c n now) = {Return (0, zeroAddrPort, Some ErrClosed)}) \<and>
      commonWrite_issue c n now \<noteq> [] \<and>
      set (commonWrite_issue c n now) \<subseteq>
        {Return (0, Some ErrClosed), Return (0, Some ErrDeadlineExceeded)} \<and>
      (\<not> wait_ready (readDeadline c) now \<and> \<not> wait_ready (writeDeadline c) now \<longrightarrow>
         set (commonWrite_issue c n now) = {Return (0, Some ErrClosed)}) \<and>
      (\<not> conn_once c \<longrightarrow>
         UDPConn_Close c n = [(c\<lparr>conn_once := True, conn_closed := True\<rparr>, n, None)])"
    by (auto simp add: NewUDPConn_def NewUDPConn_issue_def go_select_def
        commonRead_issue_def commonWrite_issue_def UDPConn_Close_def Let_def)
qed

theorem shutdown_is_idempotent_and_final_witness:
  "Network_Close netA_bound = (netA_closed, None) \<and>
   Network_Close netA_closed = (netA_closed, None) \<and>
   net_closed netA_closed \<and>
   loop_running netA_closed \<and>
   NewUDPConn netA_closed addrB zeroAddrPort = [(netA_closed, None, Some ErrClosed)] \<and>
   commonRead_issue connA netA_closed 0 = [Return (0, zeroAddrPort, Some ErrClosed)] \<and>
   commonWrite_issue connA netA_closed 0 = [Return (0, Some ErrClosed)] \<and>
   UDPConn_Close connA netA_closed =
     [(connA\<lparr>conn_once := True, conn_closed := True\<rparr>, netA_closed, None)]"
proof -
  have inv: "net_once netA_bound \<longrightarrow> net_closed netA_bound"
    by (simp add: netA_bound_eq)
  have d: "\<not> wait_ready (readDeadline connA) 0" "\<not> wait_ready (writeDeadline connA) 0"
    "\<not> conn_once connA"
    by (simp_all add: connA_def NewUDPConn_conn_def wait_ready_def makePipeDeadline_def)
  have r: "commonRead_issue connA netA_closed 0 = [Return (0, zeroAddrPort, Some ErrClosed)]"
    by (simp add: commonRead_issue_def go_select_def netA_closed_eq connA_def NewUDPConn_conn_def
        wait_ready_def makePipeDeadline_def)
  have w: "commonWrite_issue connA netA_closed 0 = [Return (0, Some ErrClosed)]"
    by (simp add: commonWrite_issue_def go_select_def netA_closed_eq connA_def NewUDPConn_conn_def
        wait_ready_def makePipeDeadline_def)
  have l: "loop_running netA_closed"
    by (simp add: netA_closed_eq)
  from shutdown_is_idempotent_and_final [where n = netA_bound]
  have c1: "Network_Close netA_bound = (netA_closed, None)"
    and c2: "Network_Close netA_closed = (netA_closed, None)"
    and c3: "net_closed netA_closed"
    using inv by (simp_all add: netA_closed_def prod_eq_iff)
  from shutdown_is_idempotent_and_final [where n = netA_closed and la = addrB
      and pa = zeroAddrPort and c = connA and now = 0] c3 d
  have "NewUDPConn netA_closed addrB zeroAddrPort = [(netA_closed, None, Some ErrClosed)]"
    and "UDPConn_Close connA netA_closed =
     [(connA\<lparr>conn_once := True, conn_closed := True\<rparr>, netA_closed, None)]"
    by simp_all
  with c1 c2 c3 l r w show ?thesis by simp
qed

text \<open>
  C7 as stated says that every request issued after the shutdown fails with
  \<^verbatim>\<open>Closed\<close>. On the network \<open>netA_closed\<close>, which \<^verbatim>\<open>Network.Close\<close> has just left,
  the \<^verbatim>\<open>Close\<close> of the handle on \<open>addrA\<close>, which issues the unbind, returns no error;
  and a receive on a handle whose read deadline has passed may return
  \<^verbatim>\<open>ErrDeadlineExceeded\<close>.
\<close>

theorem requests_after_shutdown_not_all_Closed:
  "Network_Close netA_bound = (netA_closed, None) \<and>
   net_closed netA_closed \<and>
   UDPConn_Close connA netA_closed =
     [(connA\<lparr>conn_once := True, conn_closed := True\<rparr>, netA_closed, None)] \<and>
   SetReadDeadline connA (Some 0) = (connA\<lparr>readDeadline := Some 0\<rparr>, None) \<and>
   commonRead_issue (connA\<lparr>readDeadline := Some 0\<rparr>) netA_closed 1 =
     [Return (0, zeroAddrPort, Some ErrClosed), Return (0, zeroAddrPort, Some ErrDeadlineExceeded)]"
  by (simp add: netA_closed_eq netA_bound_eq Network_Close_def UDPConn_Close_def go_select_def
      connA_def NewUDPConn_conn_def SetReadDeadline_def set_deadline_def commonRead_issue_def
      wait_ready_def)

subsection \<open>Reading on a connected handle\<close>

lemma Read_loop_skip:
  assumes "list_all (\<lambda>(count, source, err). err = None \<and> source \<noteq> peer) skipped"
  shows "Read_loop peer (skipped @ rest) =
           map_option (\<lambda>(res, calls). (res, length skipped + calls)) (Read_loop peer rest)"
  using assms
proof (induction skipped)
  case Nil
  show ?case by (simp add: option.map_ident split_def)
next
  case (Cons r skipped)
  obtain count source err where r: "r = (count, source, err)"
    by (cases r)
  from Cons.prems r have "err = None" "source \<noteq> peer"
    and rest: "list_all (\<lambda>(count, source, err). err = None \<and> source \<noteq> peer) skipped"
    by simp_all
  then show ?case
    using Cons.IH [OF rest] r
    by (simp add: option.map_comp comp_def split_def)
qed

text \<open>
  C9: \<^verbatim>\<open>Read\<close> on a handle without a peer fails with \<^verbatim>\<open>ENOTCONN\<close> and makes no call
  of \<^verbatim>\<open>commonRead\<close>, so the actor is not contacted. On a connected handle it calls
  \<^verbatim>\<open>commonRead\<close> again and again: while the calls return datagrams whose sender is not
  the peer it goes on; it returns the byte count of the first datagram whose sender is
  the peer, or zero and the error of the first call that fails (a deadline that fires,
  the handle or the network being closed, or an error set by the actor).
\<close>

theorem Read_filters_by_peer:
  "(\<not> IsValid (peerAddr c) \<longrightarrow> Read c rs = Some ((0, Some ENOTCONN), 0)) \<and>
   (IsValid (peerAddr c) \<and>
    list_all (\<lambda>(count, source, err). err = None \<and> source \<noteq> peerAddr c) skipped \<longrightarrow>
      Read c skipped = None \<and>
      Read c (skipped @ (count, peerAddr c, None) # rest) =
        Some ((count, None), Suc (length skipped)) \<and>
      Read c (skipped @ (count, source, Some e) # rest) =
        Some ((0, Some e), Suc (length skipped)))"
proof (intro conjI impI)
  show "Read c rs = Some ((0, Some ENOTCONN), 0)" if "\<not> IsValid (peerAddr c)"
    using that by (simp add: Read_def)
next
  assume h: "IsValid (peerAddr c) \<and>
    list_all (\<lambda>(count, source, err). err = None \<and> source \<noteq> peerAddr c) skipped"
  then have v: "IsValid (peerAddr c)"
    and s: "list_all (\<lambda>(count, source, err). err = None \<and> source \<noteq> peerAddr c) skipped"
    by simp_all
  show "Read c skipped = None"
    using v Read_loop_skip [OF s, of "[]"] by (simp add: Read_def)
  show "Read c (skipped @ (count, peerAddr c, None) # rest) =
        Some ((count, None), Suc (length skipped))"
    using v Read_loop_skip [OF s, of "(count, peerAddr c, None) # rest"] by (simp add: Read_def)
  show "Read c (skipped @ (count, source, Some e) # rest) =
        Some ((0, Some e), Suc (length skipped))"
    using v Read_loop_skip [OF s, of "(count, source, Some e) # rest"] by (simp add: Read_def)
qed

theorem Read_filters_by_peer_witness:
  "Read connA [(3, addrB, None)] = Some ((0, Some ENOTCONN), 0) \<and>
   Read connAB [(2, addrA, None), (1, zeroAddrPort, None)] = None \<and>
   Read connAB [(2, addrA, None), (1, zeroAddrPort, None), (3, addrB, None), (4, addrB, None)] =
     Some ((3, None), 3) \<and>
   Read connAB [(2, addrA, None), (1, zeroAddrPort, None), (0, zeroAddrPort, Some ErrDeadlineExceeded)] =
     Some ((0, Some ErrDeadlineExceeded), 3)"
proof -
  have a: "\<not> IsValid (peerAddr connA)"
    by (simp add: connA_def NewUDPConn_conn_def IsValid_def zeroAddrPort_def)
  have p: "peerAddr connAB = addrB"
    by (simp add: connAB_def NewUDPConn_conn_def)
  have b: "IsValid (peerAddr connAB) \<and>
    list_all (\<lambda>(count, source, err). err = None \<and> source \<noteq> peerAddr connAB)
      [(2, addrA, None), (1, zeroAddrPort, None)]"
    by (simp add: p IsValid_def addrA_def addrB_def zeroAddrPort_def)
  from Read_filters_by_peer [where c = connA and rs = "[(3, addrB, None)]"] a
  have 1: "Read connA [(3, addrB, None)] = Some ((0, Some ENOTCONN), 0)"
    by blast
  from Read_filters_by_peer [where c = connAB
      and skipped = "[(2, addrA, None), (1, zeroAddrPort, None)]" and count = 3
      and rest = "[(4, addrB, None)]"] b p
  have 2: "Read connAB [(2, addrA, None), (1, zeroAddrPort, None)] = None"
    and 3: "Read connAB [(2, addrA, None), (1, zeroAddrPort, None), (3, addrB, None), (4, addrB, None)] =
     Some ((3, None), 3)"
    by simp_all
  from Read_filters_by_peer [where c = connAB
      and skipped = "[(2, addrA, None), (1, zeroAddrPort, None)]" and count = 0
      and source = zeroAddrPort and e = ErrDeadlineExceeded and rest = "[]"] b p
  have 4: "Read connAB [(2, addrA, None), (1, zeroAddrPort, None), (0, zeroAddrPort, Some ErrDeadlineExceeded)] =
     Some ((0, Some ErrDeadlineExceeded), 3)"
    by simp
  from 1 2 3 4 show ?thesis by blast
qed

subsection \<open>The deadline of a write\<close>

text \<open>
  C1 says that a blocked \<^verbatim>\<open>Write\<close> or \<^verbatim>\<open>WriteTo\<close> races the write deadline. Both
  \<^verbatim>\<open>select\<close> statements of \<^verbatim>\<open>commonWrite\<close> wait on \<^verbatim>\<open>c.readDeadline\<close>, as those of
  \<^verbatim>\<open>commonRead\<close> do, and nothing reads \<^verbatim>\<open>c.writeDeadline\<close>. So the outcome of a write
  does not depend on the write deadline at all. With both addresses bound and no receive
  pending at \<open>addrB\<close>, a write to \<open>addrB\<close> on a handle whose write deadline 5 has
  passed at time 10 is handed to the actor, is parked there, and then stays blocked: no
  case of the second \<^verbatim>\<open>select\<close> can be taken. With the read deadline set to 5 instead,
  the same write fails with \<^verbatim>\<open>ErrDeadlineExceeded\<close>.
\<close>

theorem write_does_not_race_write_deadline:
  "commonWrite_issue (c\<lparr>writeDeadline := d\<rparr>) network now = commonWrite_issue c network now \<and>
   commonWrite_ack (c\<lparr>writeDeadline := d\<rparr>) network now data req =
     commonWrite_ack c network now data req \<and>
   SetWriteDeadline connAB (Some 5) = (connAB\<lparr>writeDeadline := Some 5\<rparr>, None) \<and>
   wait_ready (writeDeadline (connAB\<lparr>writeDeadline := Some 5\<rparr>)) 10 \<and>
   Write_issue (connAB\<lparr>writeDeadline := Some 5\<rparr>) netAB_bound 10 = [Sent] \<and>
   snd (dispatch netAB_bound (WriteUDP (Write_req (connAB\<lparr>writeDeadline := Some 5\<rparr>) [1]))) = [] \<and>
   commonWrite_ack (connAB\<lparr>writeDeadline := Some 5\<rparr>)
     (fst (dispatch netAB_bound (WriteUDP (Write_req (connAB\<lparr>writeDeadline := Some 5\<rparr>) [1]))))
     10 [1] (Write_req (connAB\<lparr>writeDeadline := Some 5\<rparr>) [1]) = [] \<and>
   SetWriteDeadline connA (Some 5) = (connA\<lparr>writeDeadline := Some 5\<rparr>, None) \<and>
   WriteTo_issue (connA\<lparr>writeDeadline := Some 5\<rparr>) (Some addrB) netAB_bound 10 = [Sent] \<and>
   commonWrite_ack (connA\<lparr>writeDeadline := Some 5\<rparr>)
     (fst (dispatch netAB_bound (WriteUDP (WriteTo_req (connA\<lparr>writeDeadline := Some 5\<rparr>) [1] addrB))))
     10 [1] (WriteTo_req (connA\<lparr>writeDeadline := Some 5\<rparr>) [1] addrB) = [] \<and>
   SetReadDeadline connA (Some 5) = (connA\<lparr>readDeadline := Some 5\<rparr>, None) \<and>
   commonWrite_ack (connA\<lparr>readDeadline := Some 5\<rparr>)
     (fst (dispatch netAB_bound (WriteUDP (WriteTo_req (connA\<lparr>readDeadline := Some 5\<rparr>) [1] addrB))))
     10 [1] (WriteTo_req (connA\<lparr>readDeadline := Some 5\<rparr>) [1] addrB) =
     [(0, Some ErrDeadlineExceeded)]"
  by (simp add: commonWrite_issue_def commonWrite_ack_def go_select_def SetWriteDeadline_def
      SetReadDeadline_def set_deadline_def wait_ready_def connAB_def connA_def NewUDPConn_conn_def
      Write_issue_def WriteTo_issue_def Write_req_def WriteTo_req_def commonWrite_req_def
      netAB_bound_eq onWriteUDP_def IsValid_def addrA_def addrB_def zeroAddrPort_def
      makePipeDeadline_def)

end
